theory Spec2Isabelle
  imports Complex_Main "HOL-Library.Sublist"
begin

section \<open>JavaScript strings\<close>

text \<open>
  A string is a list of characters, one \<open>char\<close> per UTF-16 code unit; the model covers
  the code units below 256 (Latin-1). \<open>toLowerCase\<close> maps \<open>A\<close>..\<open>Z\<close> and the
  accented capitals \<open>0xC0\<close>..\<open>0xDE\<close> (without the multiplication sign \<open>0xD7\<close>) to
  their lower-case letters, 32 positions up. \<open>trim\<close> removes the ECMAScript white
  space and line terminators of that range from both ends.
\<close>

definition lowerChar :: "char \<Rightarrow> char" where
  "lowerChar c =
     (let n = (of_char c :: nat)
      in if (65 \<le> n \<and> n \<le> 90) \<or> (192 \<le> n \<and> n \<le> 222 \<and> n \<noteq> 215)
         then char_of (n + 32) else c)"

definition toLowerCase :: "string \<Rightarrow> string" where
  "toLowerCase s = map lowerChar s"

fun includesStr :: "string \<Rightarrow> string \<Rightarrow> bool" where
  "includesStr [] sub = (sub = [])"
| "includesStr (c # cs) sub = (prefix sub (c # cs) \<or> includesStr cs sub)"

definition endsWith :: "string \<Rightarrow> string \<Rightarrow> bool" where
  "endsWith s x = suffix x s"

definition startsWith :: "string \<Rightarrow> string \<Rightarrow> bool" where
  "startsWith s x = prefix x s"

fun splitOn :: "char \<Rightarrow> string \<Rightarrow> string list" where
  "splitOn d [] = [[]]"
| "splitOn d (c # cs) =
     (if c = d then [] # splitOn d cs
      else (case splitOn d cs of l # ls \<Rightarrow> (c # l) # ls | [] \<Rightarrow> [[c]]))"

fun join :: "string \<Rightarrow> string list \<Rightarrow> string" where
  "join sep [] = []"
| "join sep [x] = x"
| "join sep (x # y # ys) = x @ sep @ join sep (y # ys)"

definition isSpace :: "char \<Rightarrow> bool" where
  "isSpace c = (of_char c \<in> {9, 10, 11, 12, 13, 32, 160 :: nat})"

definition trim :: "string \<Rightarrow> string" where
  "trim s = rev (dropWhile isSpace (rev (dropWhile isSpace s)))"

text \<open>Decimal digits of a number, as a template literal prints it.\<close>

fun showNat :: "nat \<Rightarrow> string" where
  "showNat n =
     (if n < 10 then [char_of (48 + n)] else showNat (n div 10) @ [char_of (48 + n mod 10)])"

declare showNat.simps [simp del]

text \<open>\<open>arr[i]\<close> is \<open>undefined\<close> outside the array.\<close>

definition nthOpt :: "'a list \<Rightarrow> nat \<Rightarrow> 'a option" where
  "nthOpt xs i = (if i < length xs then Some (xs ! i) else None)"


section \<open>Report analyzer: section extraction (extractSection)\<close>

text \<open>
  The \<open>for\<close> loop of \<open>extractSection\<close>, with its two variables \<open>extractedText\<close> and
  \<open>capturing\<close> as arguments. A \<open>break\<close> returns the text collected so far.
\<close>

definition isTargetSection :: "string list \<Rightarrow> string \<Rightarrow> bool" where
  "isTargetSection sectionNames line =
     list_ex (\<lambda>name. includesStr line (toLowerCase name)
                \<and> (includesStr line '':'' \<or> endsWith line (toLowerCase name)))
       sectionNames"

definition isPotentialHeading :: "string \<Rightarrow> bool" where
  "isPotentialHeading line =
     (length line < 50 \<and> (includesStr line '':'' \<or> endsWith line '':'')
      \<and> \<not> includesStr line ''  '')"

function extractLoop :: "string list \<Rightarrow> string list \<Rightarrow> nat \<Rightarrow> string \<Rightarrow> bool \<Rightarrow> string" where
  "extractLoop sectionNames lines i extractedText capturing =
     (if i < length lines then
        (let line = toLowerCase (lines ! i) in
         if isTargetSection sectionNames line
         then extractLoop sectionNames lines (i + 1) (lines ! i) True
         else if capturing then
           (if isPotentialHeading line \<and> 0 < i \<and> trim (lines ! (i - 1)) = []
            then extractedText
            else extractLoop sectionNames lines (i + 1)
                   (extractedText @ ''\<newline>'' @ lines ! i) capturing)
         else extractLoop sectionNames lines (i + 1) extractedText capturing)
      else extractedText)"
  by pat_completeness auto
termination
  by (relation "measure (\<lambda>(ns, ls, i, t, c). length ls - i)") auto

declare extractLoop.simps [simp del]

definition extractSection :: "string \<Rightarrow> string list \<Rightarrow> string" where
  "extractSection text sectionNames =
     (let extractedText = extractLoop sectionNames (splitOn CHR ''\<newline>'' text) 0 [] False
      in if trim extractedText = [] then ''No information available'' else trim extractedText)"

text \<open>The section names \<open>analyzeContent\<close> passes for the diagnosis.\<close>

abbreviation diagnosisNames :: "string list" where
  "diagnosisNames \<equiv> [''diagnosis'', ''assessment'']"


section \<open>Report analyzer: data model and collaborators\<close>

record uploadedFile =
  fileName :: string
  fileType :: string
  fileBytes :: string

text \<open>A \<open>Part\<close> of a request: a text, or inline data with its MIME type.\<close>

datatype part = TextPart string | InlineData "string option" string

text \<open>
  A value that \<open>JSON.parse\<close> can return. Numbers are carried as they are and never
  computed with.
\<close>

datatype json =
  JNull | JBool bool | JNumber real | JString string
  | JArray "json list" | JObject "(string \<times> json) list"

text \<open>A thrown value.\<close>

datatype exn = Exn string

record AnalysisResult =
  textFindings :: string
  imageFindings :: "string \<rightharpoonup> json"
  diagnosis :: string
  recommendations :: string

text \<open>
  The component state. \<open>imageFindings\<close> and \<open>imageAnalysisProgress\<close> are objects used
  as dictionaries from file names; they are maps, read by key.
\<close>

record analyzer =
  files :: "uploadedFile list"
  patientName :: string
  isAnalyzing :: bool
  error :: string
  result :: "AnalysisResult option"
  previewUrls :: "string list"
  imageAnalysisProgress :: "string \<rightharpoonup> nat"

text \<open>
  The collaborators outside the repository: the file reader (\<open>None\<close> is a \<open>null\<close>
  result), the completion service (given the requests sent before and the request, it
  answers with a text or throws; a throwing \<open>response.text()\<close> is the same outcome), and
  \<open>JSON.parse\<close> (\<open>Inl\<close> is the \<open>SyntaxError\<close> it throws).
\<close>

record services =
  readAsDataURL :: "uploadedFile \<Rightarrow> string option"
  generateContent :: "part list list \<Rightarrow> part list \<Rightarrow> exn + string"
  JSON_parse :: "string \<Rightarrow> exn + json"


section \<open>Report analyzer: the submit operation (analyzeContent)\<close>

definition extractTextFromPDF :: "uploadedFile \<Rightarrow> string" where
  "extractTextFromPDF f = ''Mock extracted text from '' @ fileName f"

text \<open>Reading \<open>.split\<close> of a \<open>null\<close> reader result throws a \<open>TypeError\<close>.\<close>

definition fileToGenerativePart :: "services \<Rightarrow> uploadedFile \<Rightarrow> exn + part" where
  "fileToGenerativePart sv f =
     (case readAsDataURL sv f of
        None \<Rightarrow> Inl (Exn ''TypeError'')
      | Some url \<Rightarrow> Inr (InlineData (nthOpt (splitOn CHR '','' url) 1) (fileType f)))"

definition reportPrompt :: "string \<Rightarrow> string" where
  \<open>reportPrompt name =
     ''Analyze the following medical documents and generate a comprehensive report for patient "'' @ name @
       ''". \<newline>'' @
       ''        The analysis should include:\<newline>'' @
       ''        1. Summary of findings from documents\<newline>'' @
       ''        2. Detailed analysis of any medical images provided, including:\<newline>'' @
       ''           - Description of visible structures and features\<newline>'' @
       ''           - Any abnormalities or concerning findings\<newline>'' @
       ''           - Measurements and dimensions if applicable\<newline>'' @
       ''           - Confidence level in the analysis\<newline>'' @
       ''           - Specific recommendations for each image\<newline>'' @
       ''        3. Overall diagnosis based on all information\<newline>'' @
       ''        4. Comprehensive recommendations for further actions or treatment''\<close>

definition imagePrompt :: string where
  \<open>imagePrompt =
     ''Analyze this medical image in detail. Provide:\<newline>'' @
     ''                1. A detailed description of visible structures and features\<newline>'' @
     ''                2. Any abnormalities or concerning findings\<newline>'' @
     ''                3. Measurements and dimensions if applicable\<newline>'' @
     ''                4. Your confidence level in the analysis (0-100)\<newline>'' @
     ''                5. Specific recommendations for this image\<newline>'' @
     ''                \<newline>'' @
     ''                Format the response as JSON with the following structure:\<newline>'' @
     ''                {\<newline>'' @
     ''                  "description": "detailed description",\<newline>'' @
     ''                  "abnormalities": ["finding1", "finding2", ...],\<newline>'' @
     ''                  "measurements": ["measurement1", "measurement2", ...],\<newline>'' @
     ''                  "confidence": number,\<newline>'' @
     ''                  "recommendations": "specific recommendations"\<newline>'' @
     ''                }''\<close>

text \<open>
  The local variables of the \<open>try\<close> block that the image loop changes, with the
  progress state it sets and the requests sent to the completion service so far.
\<close>

record run =
  parts :: "part list"
  imageAnalysis :: "string \<rightharpoonup> json"
  progress :: "string \<rightharpoonup> nat"
  calls :: "part list list"

text \<open>
  One iteration of the image loop. \<open>Inl (e, r)\<close>: the iteration threw \<open>e\<close>, with the
  state reached by then. The inner \<open>try\<close>/\<open>catch\<close> around \<open>JSON.parse\<close> is the
  \<open>case\<close> on its result.
\<close>

definition analyzeImage ::
    "services \<Rightarrow> nat \<Rightarrow> nat \<Rightarrow> uploadedFile \<Rightarrow> run \<Rightarrow> (exn \<times> run) + run" where
  "analyzeImage sv imageCount index f r =
     (let r1 = r\<lparr>progress := (progress r)(fileName f \<mapsto> 0)\<rparr>
      in case fileToGenerativePart sv f of
           Inl e \<Rightarrow> Inl (e, r1)
         | Inr imagePart \<Rightarrow>
             (let r2 = r1\<lparr>parts := parts r1 @
                          [TextPart (''Analyzing medical image '' @ showNat (index + 1) @
                                     '' of '' @ showNat imageCount @ '': '' @ fileName f),
                           imagePart]\<rparr>;
                  request = [TextPart imagePrompt, imagePart];
                  r3 = r2\<lparr>calls := calls r2 @ [request]\<rparr>
              in case generateContent sv (calls r2) request of
                   Inl e \<Rightarrow> Inl (e, r3)
                 | Inr responseText \<Rightarrow>
                     (let analysis =
                            (case JSON_parse sv responseText of
                               Inr parsed \<Rightarrow> parsed
                             | Inl e \<Rightarrow>
                                 JObject
                                   [(''description'', JString responseText),
                                    (''abnormalities'', JArray []),
                                    (''measurements'', JArray []),
                                    (''confidence'', JNumber 0),
                                    (''recommendations'',
                                     JString ''Unable to parse detailed analysis'')]);
                          r4 = r3\<lparr>imageAnalysis := (imageAnalysis r3)(fileName f \<mapsto> analysis)\<rparr>
                      in Inr (r4\<lparr>progress := (progress r4)(fileName f \<mapsto> 100)\<rparr>))))"

fun imageLoop ::
    "services \<Rightarrow> nat \<Rightarrow> nat \<Rightarrow> uploadedFile list \<Rightarrow> run \<Rightarrow> (exn \<times> run) + run" where
  "imageLoop sv imageCount index [] r = Inr r"
| "imageLoop sv imageCount index (f # fs) r =
     (case analyzeImage sv imageCount index f r of
        Inl x \<Rightarrow> Inl x
      | Inr r' \<Rightarrow> imageLoop sv imageCount (index + 1) fs r')"

text \<open>The three sections cut out of the aggregate reply, with their defaults.\<close>

definition buildResult :: "(string \<rightharpoonup> json) \<Rightarrow> string \<Rightarrow> AnalysisResult" where
  "buildResult found responseText =
     \<lparr>textFindings =
        (if includesStr (toLowerCase responseText) ''document findings''
            \<or> includesStr (toLowerCase responseText) ''text findings''
         then extractSection responseText [''document findings'', ''text findings'']
         else ''No document findings available''),
      imageFindings = found,
      diagnosis =
        (if includesStr (toLowerCase responseText) ''diagnosis''
         then extractSection responseText [''diagnosis'', ''assessment'']
         else ''No diagnosis available''),
      recommendations =
        (if includesStr (toLowerCase responseText) ''recommendation''
            \<or> includesStr (toLowerCase responseText) ''treatment''
         then extractSection responseText [''recommendation'', ''treatment'', ''plan'']
         else ''No recommendations available'')\<rparr>"

text \<open>
  The body of the \<open>try\<close> block: \<open>Inl\<close> when a statement threw, \<open>Inr\<close> with the result
  handed to \<open>setResult\<close> otherwise.
\<close>

definition tryBody :: "services \<Rightarrow> analyzer \<Rightarrow> (exn \<times> run) + (AnalysisResult \<times> run)" where
  "tryBody sv s =
     (let parts0 = [TextPart (reportPrompt (patientName s))];
          pdfFiles = filter (\<lambda>f. fileType f = ''application/pdf'') (files s);
          parts1 =
            (if 0 < length pdfFiles
             then parts0 @
                    [TextPart (''Text extracted from PDF documents:\<newline>'' @
                               join ''\<newline>\<newline>'' (map extractTextFromPDF pdfFiles))]
             else parts0);
          imageFiles = filter (\<lambda>f. startsWith (fileType f) ''image/'') (files s);
          r0 = \<lparr>parts = parts1, imageAnalysis = Map.empty,
                progress = imageAnalysisProgress s, calls = []\<rparr>
      in case (if 0 < length imageFiles
               then imageLoop sv (length imageFiles) 0 imageFiles r0 else Inr r0) of
           Inl x \<Rightarrow> Inl x
         | Inr r \<Rightarrow>
             (let r' = r\<lparr>calls := calls r @ [parts r]\<rparr>
              in case generateContent sv (calls r) (parts r) of
                   Inl e \<Rightarrow> Inl (e, r')
                 | Inr responseText \<Rightarrow>
                     Inr (buildResult (imageAnalysis r) responseText, r')))"

text \<open>
  \<open>analyzeContent\<close> returns the new component state and the requests it sent to the
  completion service.
\<close>

definition analyzeContent :: "services \<Rightarrow> analyzer \<Rightarrow> analyzer \<times> part list list" where
  "analyzeContent sv s =
     (if files s = [] \<or> patientName s = []
      then (s\<lparr>error := ''Please upload files and enter patient name''\<rparr>, [])
      else
        (let s1 = s\<lparr>isAnalyzing := True, error := []\<rparr>
         in case tryBody sv s1 of
              Inr (analysisResult, r) \<Rightarrow>
                (s1\<lparr>imageAnalysisProgress := progress r,
                    result := Some analysisResult,
                    isAnalyzing := False\<rparr>, calls r)
            | Inl (e, r) \<Rightarrow>
                (s1\<lparr>imageAnalysisProgress := progress r,
                    error := ''Error analyzing documents. Please try again.'',
                    isAnalyzing := False\<rparr>, calls r)))"

text \<open>
  The two ways a collaborator can throw inside the \<open>try\<close> block, read off the
  collaborators themselves: one of the selected images cannot be read (the reader's
  result is \<open>null\<close>), or one of the requests of a log was answered by an exception
  (the service is asked with the requests sent before it).
\<close>

definition unreadableImage :: "services \<Rightarrow> analyzer \<Rightarrow> bool" where
  "unreadableImage sv s =
     list_ex (\<lambda>f. startsWith (fileType f) ''image/'' \<and> readAsDataURL sv f = None) (files s)"

definition refusedRequest :: "services \<Rightarrow> part list list \<Rightarrow> bool" where
  "refusedRequest sv sent =
     list_ex (\<lambda>k. isl (generateContent sv (take k sent) (sent ! k))) [0..<length sent]"


section \<open>Report analyzer: the renderer (generatePDF)\<close>

text \<open>
  The renderer drives the drawing library; the model is the sequence of calls it makes.
  \<open>doc.text\<close> takes a string or an array of lines; \<open>splitTextToSize\<close> is handed the
  \<open>imageFindings\<close> object as it is.
\<close>

datatype textArg = Str string | Lines "string list" | Obj "string \<rightharpoonup> json"

datatype cmd =
  SetFillColor nat nat nat
  | Rect real real real real string
  | SetTextColor nat nat nat
  | SetFontSize nat
  | SetFont "string option" string
  | DrawText textArg int int
  | AddPage
  | Save string

text \<open>
  What the renderer reads from outside: the page width and the word wrap of the
  drawing library, and the date formatter applied to the clock (milliseconds).
\<close>

record renderEnv =
  pageWidth :: real
  splitTextToSize :: "textArg \<Rightarrow> real \<Rightarrow> string list"
  format :: "int \<Rightarrow> string \<Rightarrow> string"

text \<open>A document under construction: the calls made so far and the cursor \<open>yPos\<close>.\<close>

type_synonym doc = "cmd list \<times> int"

text \<open>The five calls that draw a section title in bold at the cursor.\<close>

definition sectionTitle :: "string \<Rightarrow> int \<Rightarrow> cmd list" where
  "sectionTitle title yPos =
     [SetFontSize 14, SetFont None ''bold'', DrawText (Str title) 20 yPos,
      SetFont None ''normal'', SetFontSize 12]"

definition drawHeader :: "renderEnv \<Rightarrow> int \<Rightarrow> string \<Rightarrow> doc" where
  "drawHeader lib now name =
     ([SetFillColor 41 98 255, Rect 0 0 (pageWidth lib) 40 ''F'',
       SetTextColor 255 255 255, SetFontSize 24,
       DrawText (Str ''AI Health Report'') 20 25,
       SetTextColor 0 0 0, SetFontSize 12,
       DrawText (Str (''Patient Name: '' @ name)) 20 50,
       DrawText (Str (''Date: '' @ format lib now ''MMMM d, yyyy'')) 20 (50 + 10)],
      50 + 30)"

text \<open>A titled block of wrapped text; the cursor moves down by 10 and 7 per line.\<close>

definition drawBlock :: "renderEnv \<Rightarrow> string \<Rightarrow> textArg \<Rightarrow> doc \<Rightarrow> doc" where
  "drawBlock lib title content d =
     (let yPos = snd d;
          textLines = splitTextToSize lib content (pageWidth lib - 40)
      in (fst d @ sectionTitle title yPos @ [DrawText (Lines textLines) 20 (yPos + 10)],
          yPos + (10 + int (length textLines) * 7)))"

text \<open>\<open>if (yPos > 230) { doc.addPage(); yPos = 20; }\<close>\<close>

definition newPageIfNeeded :: "doc \<Rightarrow> doc" where
  "newPageIfNeeded d = (if snd d > 230 then (fst d @ [AddPage], 20) else d)"

definition beforeDiagnosis :: "renderEnv \<Rightarrow> int \<Rightarrow> string \<Rightarrow> AnalysisResult \<Rightarrow> doc" where
  "beforeDiagnosis lib now name res =
     drawBlock lib ''Image Analysis'' (Obj (imageFindings res))
       (drawBlock lib ''Findings from Documents'' (Str (textFindings res))
          (drawHeader lib now name))"

definition beforeRecommendations :: "renderEnv \<Rightarrow> int \<Rightarrow> string \<Rightarrow> AnalysisResult \<Rightarrow> doc" where
  "beforeRecommendations lib now name res =
     drawBlock lib ''Diagnosis'' (Str (diagnosis res))
       (newPageIfNeeded (beforeDiagnosis lib now name res))"

text \<open>
  The last block does not move the cursor any more; \<open>doc.save\<close> ends the rendering.
  Without a result the function returns at once and draws nothing.
\<close>

definition generatePDF :: "renderEnv \<Rightarrow> int \<Rightarrow> analyzer \<Rightarrow> cmd list" where
  "generatePDF lib now s =
     (case result s of
        None \<Rightarrow> []
      | Some res \<Rightarrow>
          fst (drawBlock lib ''Recommendations'' (Str (recommendations res))
                 (newPageIfNeeded (beforeRecommendations lib now (patientName s) res)))
          @ [Save (patientName s @ ''_AI_Health_Report.pdf'')])"

text \<open>
  Reading a rendering: the number of page breaks, and for every page break the first
  string drawn after it (the title of the section that starts the new page).
\<close>

definition pageBreaks :: "cmd list \<Rightarrow> nat" where
  "pageBreaks cs = length (filter (\<lambda>c. c = AddPage) cs)"

fun firstText :: "cmd list \<Rightarrow> string option" where
  "firstText [] = None"
| "firstText (DrawText (Str t) x y # cs) = Some t"
| "firstText (c # cs) = firstText cs"

fun breakTitles :: "cmd list \<Rightarrow> string option list" where
  "breakTitles [] = []"
| "breakTitles (c # cs) = (if c = AddPage then [firstText cs] else []) @ breakTitles cs"

section \<open>Dashboard shell: panel flags (App.tsx, AuthenticatedApp)\<close>

text \<open>
  The shell keeps six independent boolean state variables, one per panel. Each
  toggle handler negates its own flag and writes \<open>False\<close> to the five others.
\<close>

record panels =
  showProfile :: bool
  showBlockchain :: bool
  showCommunity :: bool
  showHandTracker :: bool
  showAdminControl :: bool
  showReportAnalyzer :: bool

definition initialPanels :: panels where
  "initialPanels =
     \<lparr>showProfile = False, showBlockchain = False, showCommunity = False,
      showHandTracker = False, showAdminControl = False, showReportAnalyzer = False\<rparr>"

definition toggleProfile :: "panels \<Rightarrow> panels" where
  "toggleProfile s =
     s\<lparr>showProfile := \<not> showProfile s, showBlockchain := False, showCommunity := False,
       showHandTracker := False, showAdminControl := False, showReportAnalyzer := False\<rparr>"

definition toggleBlockchain :: "panels \<Rightarrow> panels" where
  "toggleBlockchain s =
     s\<lparr>showBlockchain := \<not> showBlockchain s, showProfile := False, showCommunity := False,
       showHandTracker := False, showAdminControl := False, showReportAnalyzer := False\<rparr>"

definition toggleCommunity :: "panels \<Rightarrow> panels" where
  "toggleCommunity s =
     s\<lparr>showCommunity := \<not> showCommunity s, showProfile := False, showBlockchain := False,
       showHandTracker := False, showAdminControl := False, showReportAnalyzer := False\<rparr>"

definition toggleHandTracker :: "panels \<Rightarrow> panels" where
  "toggleHandTracker s =
     s\<lparr>showHandTracker := \<not> showHandTracker s, showProfile := False, showBlockchain := False,
       showCommunity := False, showAdminControl := False, showReportAnalyzer := False\<rparr>"

definition toggleAdminControl :: "panels \<Rightarrow> panels" where
  "toggleAdminControl s =
     s\<lparr>showAdminControl := \<not> showAdminControl s, showProfile := False, showBlockchain := False,
       showCommunity := False, showHandTracker := False, showReportAnalyzer := False\<rparr>"

definition toggleReportAnalyzer :: "panels \<Rightarrow> panels" where
  "toggleReportAnalyzer s =
     s\<lparr>showReportAnalyzer := \<not> showReportAnalyzer s, showProfile := False,
       showBlockchain := False, showCommunity := False, showHandTracker := False,
       showAdminControl := False\<rparr>"

text \<open>The six buttons of the navigation bar, and a run of clicks on them.\<close>

datatype toggle =
  ToggleProfile | ToggleBlockchain | ToggleCommunity
  | ToggleHandTracker | ToggleAdminControl | ToggleReportAnalyzer

fun applyToggle :: "panels \<Rightarrow> toggle \<Rightarrow> panels" where
  "applyToggle s ToggleProfile = toggleProfile s"
| "applyToggle s ToggleBlockchain = toggleBlockchain s"
| "applyToggle s ToggleCommunity = toggleCommunity s"
| "applyToggle s ToggleHandTracker = toggleHandTracker s"
| "applyToggle s ToggleAdminControl = toggleAdminControl s"
| "applyToggle s ToggleReportAnalyzer = toggleReportAnalyzer s"

definition runToggles :: "panels \<Rightarrow> toggle list \<Rightarrow> panels" where
  "runToggles s ts = foldl applyToggle s ts"

text \<open>The flag a toggle owns, and the number of panels that are open.\<close>

fun flagOf :: "toggle \<Rightarrow> panels \<Rightarrow> bool" where
  "flagOf ToggleProfile s = showProfile s"
| "flagOf ToggleBlockchain s = showBlockchain s"
| "flagOf ToggleCommunity s = showCommunity s"
| "flagOf ToggleHandTracker s = showHandTracker s"
| "flagOf ToggleAdminControl s = showAdminControl s"
| "flagOf ToggleReportAnalyzer s = showReportAnalyzer s"

definition panelFlags :: "panels \<Rightarrow> bool list" where
  "panelFlags s =
     [showProfile s, showBlockchain s, showCommunity s,
      showHandTracker s, showAdminControl s, showReportAnalyzer s]"

definition openCount :: "panels \<Rightarrow> nat" where
  "openCount s = length (filter (\<lambda>b. b) (panelFlags s))"


section \<open>Rewards (Profile.tsx: completeTask, claimReward, redeemCoupon)\<close>

record coupon =
  code :: string
  status :: string
  expiry :: string

datatype module = Challenges | MealPlanner | Goals | Journaling

record moduleCounts =
  challenges :: int
  mealPlanner :: int
  goals :: int
  journaling :: int

record rewards =
  userPoints :: int
  userCoupons :: "coupon list"
  moduleProgress :: moduleCounts

definition initialRewards :: rewards where
  "initialRewards =
     \<lparr>userPoints = 0, userCoupons = [],
      moduleProgress = \<lparr>challenges = 0, mealPlanner = 0, goals = 0, journaling = 0\<rparr>\<rparr>"

fun bumpModule :: "module \<Rightarrow> moduleCounts \<Rightarrow> moduleCounts" where
  "bumpModule Challenges p = p\<lparr>challenges := challenges p + 1\<rparr>"
| "bumpModule MealPlanner p = p\<lparr>mealPlanner := mealPlanner p + 1\<rparr>"
| "bumpModule Goals p = p\<lparr>goals := goals p + 1\<rparr>"
| "bumpModule Journaling p = p\<lparr>journaling := journaling p + 1\<rparr>"

definition completeTask :: "module \<Rightarrow> rewards \<Rightarrow> rewards" where
  "completeTask m s =
     s\<lparr>userPoints := userPoints s + 10,
       moduleProgress := bumpModule m (moduleProgress s)\<rparr>"

text \<open>
  \<open>claimReward\<close> draws a random suffix and computes an expiry date from the clock;
  both are passed in, together with the \<open>userId\<close> the component derived from the
  account.
\<close>

definition claimReward :: "string \<Rightarrow> string \<Rightarrow> string \<Rightarrow> rewards \<Rightarrow> rewards" where
  "claimReward userId randomStr expiryDate s =
     (if userPoints s < 100 then s
      else s\<lparr>userCoupons :=
                userCoupons s @
                  [\<lparr>code = ''HEX-'' @ userId @ ''-'' @ randomStr,
                    status = ''active'', expiry = expiryDate\<rparr>],
              userPoints := userPoints s - 100\<rparr>)"

definition redeemCoupon :: "string \<Rightarrow> rewards \<Rightarrow> rewards" where
  "redeemCoupon c s =
     s\<lparr>userCoupons :=
         map (\<lambda>k. if code k = c then k\<lparr>status := ''claimed''\<rparr> else k) (userCoupons s)\<rparr>"

datatype rewardOp =
  CompleteTask module
  | ClaimReward string string string

fun applyReward :: "rewards \<Rightarrow> rewardOp \<Rightarrow> rewards" where
  "applyReward s (CompleteTask m) = completeTask m s"
| "applyReward s (ClaimReward u r e) = claimReward u r e s"

definition runRewards :: "rewards \<Rightarrow> rewardOp list \<Rightarrow> rewards" where
  "runRewards s ops = foldl applyReward s ops"

text \<open>The invariant of the points counter.\<close>

definition pointsOk :: "rewards \<Rightarrow> bool" where
  "pointsOk s = (0 \<le> userPoints s \<and> userPoints s mod 10 = 0)"


section \<open>Example inputs\<close>

text \<open>
  An idle component, one PNG upload, and three sets of collaborators: a service that
  answers in plain words (on which \<open>JSON.parse\<close> throws), one that answers with the
  JSON asked for, and one whose requests fail.
\<close>

definition idleAnalyzer :: analyzer where
  "idleAnalyzer =
     \<lparr>files = [], patientName = [], isAnalyzing = False, error = [], result = None,
      previewUrls = [], imageAnalysisProgress = Map.empty\<rparr>"

definition scanFile :: uploadedFile where
  "scanFile = \<lparr>fileName = ''scan.png'', fileType = ''image/png'', fileBytes = ''PNG''\<rparr>"

definition janeDoe :: analyzer where
  "janeDoe = idleAnalyzer\<lparr>files := [scanFile], patientName := ''Jane Doe''\<rparr>"

definition plainServices :: services where
  "plainServices =
     \<lparr>readAsDataURL = (\<lambda>f. Some (''data:'' @ fileType f @ '';base64,UE5H'')),
      generateContent = (\<lambda>sent request. Inr ''The scan looks normal.''),
      JSON_parse = (\<lambda>t. Inl (Exn ''SyntaxError''))\<rparr>"

definition normalFindings :: json where
  "normalFindings =
     JObject [(''description'', JString ''clear lung fields''),
              (''abnormalities'', JArray []),
              (''measurements'', JArray [JString ''heart width 12 cm'']),
              (''confidence'', JNumber 85),
              (''recommendations'', JString ''none'')]"

definition jsonServices :: services where
  "jsonServices =
     \<lparr>readAsDataURL = (\<lambda>f. Some (''data:'' @ fileType f @ '';base64,UE5H'')),
      generateContent = (\<lambda>sent request. Inr ''{...}''),
      JSON_parse = (\<lambda>t. if t = ''{...}'' then Inr normalFindings else Inl (Exn ''SyntaxError''))\<rparr>"

definition failingServices :: services where
  "failingServices =
     \<lparr>readAsDataURL = (\<lambda>f. Some (''data:'' @ fileType f @ '';base64,UE5H'')),
      generateContent = (\<lambda>sent request. Inl (Exn ''Failed to fetch'')),
      JSON_parse = (\<lambda>t. Inl (Exn ''SyntaxError''))\<rparr>"

definition emptyRun :: run where
  "emptyRun = \<lparr>parts = [], imageAnalysis = Map.empty, progress = Map.empty, calls = []\<rparr>"

text \<open>
  A second upload; collaborators whose first answer is plain words and whose later
  answers are the JSON asked for; and collaborators whose file reader gives \<open>null\<close>.
\<close>

definition xrayFile :: uploadedFile where
  "xrayFile = \<lparr>fileName = ''xray.jpg'', fileType = ''image/jpeg'', fileBytes = ''JPG''\<rparr>"

definition mixedServices :: services where
  "mixedServices =
     \<lparr>readAsDataURL = (\<lambda>f. Some (''data:'' @ fileType f @ '';base64,UE5H'')),
      generateContent =
        (\<lambda>sent request. if sent = [] then Inr ''The scan looks normal.'' else Inr ''{...}''),
      JSON_parse = (\<lambda>t. if t = ''{...}'' then Inr normalFindings else Inl (Exn ''SyntaxError''))\<rparr>"

definition lockedServices :: services where
  "lockedServices =
     \<lparr>readAsDataURL = (\<lambda>f. None),
      generateContent = (\<lambda>sent request. Inr ''The scan looks normal.''),
      JSON_parse = (\<lambda>t. Inl (Exn ''SyntaxError''))\<rparr>"

text \<open>
  A drawing library for an A4 page that wraps by cutting a text at line feeds, a
  formatter that prints the day number, and two stored results: a short one, and one
  whose document findings run over thirty lines.
\<close>

definition lineLib :: renderEnv where
  "lineLib =
     \<lparr>pageWidth = 210,
      splitTextToSize =
        (\<lambda>content w. case content of
             Str t \<Rightarrow> splitOn CHR ''\<newline>'' t
           | Lines ls \<Rightarrow> ls
           | Obj m \<Rightarrow> [''[object Object]'']),
      format = (\<lambda>ms pattern. ''day '' @ showNat (nat (ms div 86400000)))\<rparr>"

definition shortResult :: AnalysisResult where
  "shortResult =
     \<lparr>textFindings = ''No document findings available'', imageFindings = Map.empty,
      diagnosis = ''Diagnosis: Mild strain'', recommendations = ''Recommendations: rest''\<rparr>"

definition longResult :: AnalysisResult where
  "longResult = shortResult\<lparr>textFindings := replicate 30 CHR ''\<newline>''\<rparr>"



section \<open>Facts about the string functions and the extraction loop\<close>

lemma includesStr_sublist: "includesStr s x = sublist x s"
  by (induction s) (simp_all add: sublist_Cons_right)

lemma includesStr_set: "includesStr s x \<Longrightarrow> set x \<subseteq> set s"
  by (simp add: includesStr_sublist set_mono_sublist)

lemma includesStr_append_left: "includesStr a x \<Longrightarrow> includesStr (a @ b) x"
  unfolding includesStr_sublist sublist_def by (metis append.assoc)

lemma includesStr_prefix: "includesStr (x @ b) x"
  by (simp add: includesStr_sublist)

lemma toLowerCase_append: "toLowerCase (a @ b) = toLowerCase a @ toLowerCase b"
  by (simp add: toLowerCase_def)

lemma lowerChar_space: "isSpace c \<Longrightarrow> lowerChar c = c"
  by (auto simp: isSpace_def lowerChar_def)

lemma toLowerCase_blank: "\<forall>c\<in>set b. isSpace c \<Longrightarrow> toLowerCase b = b"
  by (induction b) (simp_all add: toLowerCase_def lowerChar_space)

lemma trim_Nil_iff: "trim b = [] \<longleftrightarrow> (\<forall>c\<in>set b. isSpace c)"
proof
  assume t: "trim b = []"
  show "\<forall>c\<in>set b. isSpace c"
  proof (rule ccontr)
    assume "\<not> (\<forall>c\<in>set b. isSpace c)"
    then have ne: "dropWhile isSpace b \<noteq> []" by simp
    then have "\<not> isSpace (hd (dropWhile isSpace b))" by (rule hd_dropWhile)
    moreover from ne have "hd (dropWhile isSpace b) \<in> set (rev (dropWhile isSpace b))" by simp
    ultimately have "dropWhile isSpace (rev (dropWhile isSpace b)) \<noteq> []"
      by (metis dropWhile_eq_Nil_conv)
    with t show False by (simp add: trim_def)
  qed
next
  assume "\<forall>c\<in>set b. isSpace c"
  then have d: "dropWhile isSpace b = []" by simp
  show "trim b = []" unfolding trim_def d by simp
qed

lemma trim_append_space:
  assumes w: "\<forall>c\<in>set w. isSpace c"
  shows "trim (t @ w) = trim t"
proof (cases "\<forall>c\<in>set t. isSpace c")
  case True
  with w have "\<forall>c\<in>set (t @ w). isSpace c" by auto
  then have "trim (t @ w) = []" by (simp only: trim_Nil_iff)
  moreover from True have "trim t = []" by (simp only: trim_Nil_iff)
  ultimately show ?thesis by simp
next
  case False
  then obtain x where "x \<in> set t" "\<not> isSpace x" by blast
  then have "dropWhile isSpace (t @ w) = dropWhile isSpace t @ w"
    by (rule dropWhile_append1)
  moreover from w have "dropWhile isSpace (rev w @ rev (dropWhile isSpace t))
      = dropWhile isSpace (rev (dropWhile isSpace t))"
    by (simp add: dropWhile_append)
  ultimately show ?thesis by (simp add: trim_def)
qed

lemma trim_id:
  assumes "s \<noteq> []" "\<not> isSpace (hd s)" "\<not> isSpace (last s)"
  shows "trim s = s"
proof -
  from assms have a: "dropWhile isSpace s = s" by (cases s) simp_all
  from assms have "rev s \<noteq> []" "\<not> isSpace (hd (rev s))" by (simp_all add: hd_rev)
  then have "dropWhile isSpace (rev s) = rev s" by (cases "rev s") simp_all
  with a show ?thesis by (simp add: trim_def)
qed

lemma trim_Cons_nonspace: "\<not> isSpace c \<Longrightarrow> trim (c # s) \<noteq> []"
  by (simp add: trim_Nil_iff)

lemma splitOn_nonempty: "splitOn d s \<noteq> []"
  by (induction s) (auto split: list.splits)

lemma splitOn_single: "d \<notin> set l \<Longrightarrow> splitOn d l = [l]"
  by (induction l) auto

lemma splitOn_line: "d \<notin> set l \<Longrightarrow> splitOn d (l @ d # r) = l # splitOn d r"
  by (induction l) auto

lemma splitOn_join:
  "ls \<noteq> [] \<Longrightarrow> \<forall>l\<in>set ls. d \<notin> set l \<Longrightarrow> splitOn d (join [d] ls) = ls"
proof (induction ls rule: induct_list012)
  case 1
  then show ?case by simp
next
  case (2 x)
  then show ?case by (simp add: splitOn_single)
next
  case (3 x y ys)
  then show ?case by (simp add: splitOn_line)
qed

lemma step_target:
  "i < length ls \<Longrightarrow> isTargetSection ns (toLowerCase (ls ! i)) \<Longrightarrow>
   extractLoop ns ls i t c = extractLoop ns ls (Suc i) (ls ! i) True"
  by (subst extractLoop.simps) simp

lemma step_skip:
  "i < length ls \<Longrightarrow> \<not> isTargetSection ns (toLowerCase (ls ! i)) \<Longrightarrow>
   extractLoop ns ls i t False = extractLoop ns ls (Suc i) t False"
  by (subst extractLoop.simps) simp

lemma step_append:
  "i < length ls \<Longrightarrow> \<not> isTargetSection ns (toLowerCase (ls ! i)) \<Longrightarrow>
   \<not> (isPotentialHeading (toLowerCase (ls ! i)) \<and> 0 < i \<and> trim (ls ! (i - 1)) = []) \<Longrightarrow>
   extractLoop ns ls i t True = extractLoop ns ls (Suc i) (t @ ''\<newline>'' @ ls ! i) True"
  by (subst extractLoop.simps) (auto simp: Let_def)

lemma step_break:
  "i < length ls \<Longrightarrow> \<not> isTargetSection ns (toLowerCase (ls ! i)) \<Longrightarrow>
   isPotentialHeading (toLowerCase (ls ! i)) \<Longrightarrow> 0 < i \<Longrightarrow> trim (ls ! (i - 1)) = [] \<Longrightarrow>
   extractLoop ns ls i t True = t"
  by (subst extractLoop.simps) (simp add: Let_def)

lemma step_end: "\<not> i < length ls \<Longrightarrow> extractLoop ns ls i t c = t"
  by (subst extractLoop.simps) simp

lemma skip_all:
  "\<forall>l\<in>set ls. \<not> isTargetSection ns (toLowerCase l) \<Longrightarrow> extractLoop ns ls i t False = t"
proof (induction "length ls - i" arbitrary: i)
  case 0
  then show ?case by (simp add: step_end)
next
  case (Suc k)
  then have lt: "i < length ls" by simp
  with Suc.prems have "\<not> isTargetSection ns (toLowerCase (ls ! i))" by simp
  with lt have "extractLoop ns ls i t False = extractLoop ns ls (Suc i) t False"
    by (rule step_skip)
  moreover from Suc have "extractLoop ns ls (Suc i) t False = t" by simp
  ultimately show ?case by simp
qed

lemma skip_prefix:
  "\<forall>l\<in>set pre. \<not> isTargetSection ns (toLowerCase l) \<Longrightarrow> i \<le> length pre \<Longrightarrow>
   extractLoop ns (pre @ rest) i t False = extractLoop ns (pre @ rest) (length pre) t False"
proof (induction "length pre - i" arbitrary: i)
  case 0
  then show ?case by simp
next
  case (Suc k)
  then have lt: "i < length pre" by simp
  then have "(pre @ rest) ! i = pre ! i" by (simp add: nth_append)
  with Suc.prems lt have nt: "\<not> isTargetSection ns (toLowerCase ((pre @ rest) ! i))" by simp
  from lt have "i < length (pre @ rest)" by simp
  from this nt have "extractLoop ns (pre @ rest) i t False
      = extractLoop ns (pre @ rest) (Suc i) t False"
    by (rule step_skip)
  moreover from Suc lt have "extractLoop ns (pre @ rest) (Suc i) t False
      = extractLoop ns (pre @ rest) (length pre) t False"
    by simp
  ultimately show ?case by simp
qed

lemma blank_excludes:
  assumes b: "trim b = []" and x: "c \<in> set x" "\<not> isSpace c"
  shows "\<not> includesStr (toLowerCase b) x"
proof
  assume "includesStr (toLowerCase b) x"
  moreover from b have sp: "\<forall>c\<in>set b. isSpace c" by (simp only: trim_Nil_iff)
  ultimately have "set x \<subseteq> set b" using includesStr_set toLowerCase_blank by metis
  with x sp show False by auto
qed


section \<open>Section extraction on a diagnosis block\<close>

lemma lower_heading: "toLowerCase ''Diagnosis: '' = ''diagnosis: ''"
  by code_simp

lemma nonspace_D: "\<not> isSpace CHR ''D''" "\<not> isSpace CHR ''d''" "\<not> isSpace CHR ''a''"
  "\<not> isSpace CHR '':''"
  by code_simp+

lemma diag_targetI:
  "includesStr L ''diagnosis'' \<Longrightarrow> includesStr L '':'' \<Longrightarrow> isTargetSection [''diagnosis'', ''assessment''] L"
proof -
  have l: "toLowerCase ''diagnosis'' = ''diagnosis''" by code_simp
  show "includesStr L ''diagnosis'' \<Longrightarrow> includesStr L '':'' \<Longrightarrow> ?thesis"
    by (simp add: isTargetSection_def l)
qed

lemma heading_is_target:
  "isTargetSection [''diagnosis'', ''assessment''] (toLowerCase (''Diagnosis: '' @ X))"
proof -
  have e: "toLowerCase (''Diagnosis: '' @ X) = ''diagnosis: '' @ toLowerCase X"
    by (simp only: toLowerCase_append lower_heading)
  show ?thesis
    unfolding e by (rule diag_targetI; rule includesStr_append_left; code_simp)
qed

lemma indented_not_heading: "\<not> isPotentialHeading (toLowerCase (''  '' @ a))"
proof -
  have "toLowerCase ''  '' = ''  ''" by code_simp
  then have "includesStr (toLowerCase (''  '' @ a)) ''  ''"
    by (simp only: toLowerCase_append includesStr_prefix)
  then show ?thesis by (simp add: isPotentialHeading_def)
qed

lemma blank_not_target:
  assumes "trim b = []"
  shows "\<not> isTargetSection [''diagnosis'', ''assessment''] (toLowerCase b)"
proof -
  have l: "toLowerCase ''diagnosis'' = ''diagnosis''" "toLowerCase ''assessment'' = ''assessment''"
    by code_simp+
  have "\<not> includesStr (toLowerCase b) ''diagnosis''"
    by (rule blank_excludes[OF assms, of "CHR ''d''"]) (simp_all add: nonspace_D)
  moreover have "\<not> includesStr (toLowerCase b) ''assessment''"
    by (rule blank_excludes[OF assms, of "CHR ''a''"]) (simp_all add: nonspace_D)
  ultimately show ?thesis
    by (simp add: isTargetSection_def l)
qed

lemma blank_not_heading:
  assumes "trim b = []"
  shows "\<not> isPotentialHeading (toLowerCase b)"
proof -
  have i: "\<not> includesStr (toLowerCase b) '':''"
    by (rule blank_excludes[OF assms, of "CHR '':''"]) (simp_all add: nonspace_D)
  then have "\<not> endsWith (toLowerCase b) '':''"
    by (auto simp: endsWith_def includesStr_sublist)
  with i show ?thesis by (simp add: isPotentialHeading_def)
qed

text \<open>
  Claim C5, as the code has it. Take a reply made of these lines: any lines of which
  none is a heading for the diagnosis names; the line \<open>Diagnosis: X\<close>; two lines
  indented by two spaces, neither of them a heading for the diagnosis names; a blank
  line (white space only); a heading-like line (shorter than 50 characters, with a
  colon, without two spaces in a row) that is not a heading for the diagnosis names;
  any further lines. On it \<open>extractSection\<close> with the diagnosis names returns the
  heading line and the two indented lines, trimmed: nothing of the blank line and
  nothing from the next heading on. When the second indented line does not end in
  white space, that is exactly the three lines.
\<close>

theorem extractSection_diagnosis:
  assumes nl: "\<forall>l\<in>set (pre @ [X, a, b, blank, nh] @ post). CHR ''\<newline>'' \<notin> set l"
    and pre: "\<forall>l\<in>set pre. \<not> isTargetSection [''diagnosis'', ''assessment''] (toLowerCase l)"
    and l1: "\<not> isTargetSection [''diagnosis'', ''assessment''] (toLowerCase (''  '' @ a))"
    and l2: "\<not> isTargetSection [''diagnosis'', ''assessment''] (toLowerCase (''  '' @ b))"
    and blank: "trim blank = []"
    and nh: "isPotentialHeading (toLowerCase nh)"
      "\<not> isTargetSection [''diagnosis'', ''assessment''] (toLowerCase nh)"
  shows "extractSection
           (join ''\<newline>'' (pre @ [''Diagnosis: '' @ X, ''  '' @ a, ''  '' @ b, blank, nh] @ post))
           [''diagnosis'', ''assessment'']
         = trim (''Diagnosis: '' @ X @ ''\<newline>'' @ ''  '' @ a @ ''\<newline>'' @ ''  '' @ b)
       \<and> (b \<noteq> [] \<and> \<not> isSpace (last b) \<longrightarrow>
          extractSection
            (join ''\<newline>'' (pre @ [''Diagnosis: '' @ X, ''  '' @ a, ''  '' @ b, blank, nh] @ post))
            [''diagnosis'', ''assessment'']
          = ''Diagnosis: '' @ X @ ''\<newline>'' @ ''  '' @ a @ ''\<newline>'' @ ''  '' @ b)"
proof -
  define H where "H = ''Diagnosis: '' @ X"
  define ls where "ls = pre @ [H, ''  '' @ a, ''  '' @ b, blank, nh] @ post"
  define n where "n = length pre"
  define T where "T = H @ ''\<newline>'' @ (''  '' @ a) @ ''\<newline>'' @ (''  '' @ b)"
  have at: "ls ! n = H" "ls ! Suc n = ''  '' @ a" "ls ! Suc (Suc n) = ''  '' @ b"
    "ls ! Suc (Suc (Suc n)) = blank" "ls ! Suc (Suc (Suc (Suc n))) = nh"
    by (simp_all add: ls_def n_def nth_append)
  have len: "Suc (Suc (Suc (Suc n))) < length ls" by (simp add: ls_def n_def)
  have "\<forall>l\<in>set ls. CHR ''\<newline>'' \<notin> set l"
    using nl by (auto simp: ls_def H_def)
  moreover have "ls \<noteq> []" by (simp add: ls_def)
  ultimately have sp: "splitOn CHR ''\<newline>'' (join ''\<newline>'' ls) = ls"
    by (simp add: splitOn_join)
  have Hne: "trim H \<noteq> []" by (simp add: H_def trim_Cons_nonspace nonspace_D)
  have s0: "extractLoop [''diagnosis'', ''assessment''] ls 0 [] False = extractLoop [''diagnosis'', ''assessment''] ls n [] False"
    unfolding ls_def n_def by (rule skip_prefix[OF pre]) simp
  have s1: "extractLoop [''diagnosis'', ''assessment''] ls n [] False = extractLoop [''diagnosis'', ''assessment''] ls (Suc n) H True"
    using step_target[of n ls diagnosisNames "[]" False] len heading_is_target[of X]
    by (simp add: at H_def)
  have s2: "extractLoop [''diagnosis'', ''assessment''] ls (Suc n) H True
      = extractLoop [''diagnosis'', ''assessment''] ls (Suc (Suc n)) (H @ ''\<newline>'' @ (''  '' @ a)) True"
    using step_append[of "Suc n" ls diagnosisNames H] len l1 Hne
    by (simp add: at)
  have s3: "extractLoop [''diagnosis'', ''assessment''] ls (Suc (Suc n)) (H @ ''\<newline>'' @ (''  '' @ a)) True
      = extractLoop [''diagnosis'', ''assessment''] ls (Suc (Suc (Suc n))) T True"
    using step_append[of "Suc (Suc n)" ls diagnosisNames "H @ ''\<newline>'' @ (''  '' @ a)"]
      len l2 indented_not_heading[of b]
    by (simp add: at T_def)
  have s4: "extractLoop [''diagnosis'', ''assessment''] ls (Suc (Suc (Suc n))) T True
      = extractLoop [''diagnosis'', ''assessment''] ls (Suc (Suc (Suc (Suc n)))) (T @ ''\<newline>'' @ blank) True"
    using step_append[of "Suc (Suc (Suc n))" ls diagnosisNames T]
      len blank_not_target[OF blank] blank_not_heading[OF blank]
    by (simp add: at)
  have s5: "extractLoop [''diagnosis'', ''assessment''] ls (Suc (Suc (Suc (Suc n)))) (T @ ''\<newline>'' @ blank) True
      = T @ ''\<newline>'' @ blank"
    using step_break[of "Suc (Suc (Suc (Suc n)))" ls diagnosisNames "T @ ''\<newline>'' @ blank"]
      len nh blank
    by (simp add: at)
  have loop: "extractLoop [''diagnosis'', ''assessment''] ls 0 [] False = T @ ''\<newline>'' @ blank"
    by (simp only: s0 s1 s2 s3 s4 s5)
  have "\<forall>c\<in>set (''\<newline>'' @ blank). isSpace c"
  proof -
    have "isSpace CHR ''\<newline>''" by code_simp
    moreover from blank have "\<forall>c\<in>set blank. isSpace c" by (simp only: trim_Nil_iff)
    ultimately show ?thesis by simp
  qed
  then have tr: "trim (T @ ''\<newline>'' @ blank) = trim T" by (rule trim_append_space)
  have Tne: "trim T \<noteq> []" by (simp add: T_def H_def trim_Cons_nonspace nonspace_D)
  have res: "extractSection (join ''\<newline>'' ls) [''diagnosis'', ''assessment''] = trim T"
    unfolding extractSection_def sp loop Let_def tr using Tne by simp
  have exact: "trim T = T" if "b \<noteq> []" "\<not> isSpace (last b)"
  proof (rule trim_id)
    show "T \<noteq> []" by (simp add: T_def H_def)
    show "\<not> isSpace (hd T)" by (simp add: T_def H_def nonspace_D)
    from that show "\<not> isSpace (last T)" by (simp add: T_def)
  qed
  from res exact show ?thesis
    by (simp add: ls_def H_def T_def)
qed

theorem extractSection_diagnosis_witness:
  "extractSection
     ''Summary of the case\<newline>Diagnosis: Mild strain\<newline>  rest for two weeks\<newline>  ice twice a day\<newline>\<newline>Recommendations:\<newline>Stay active''
     [''diagnosis'', ''assessment'']
   = ''Diagnosis: Mild strain\<newline>  rest for two weeks\<newline>  ice twice a day''"
proof -
  have nl: "\<forall>l\<in>set ([''Summary of the case''] @
       [''Mild strain'', ''rest for two weeks'', ''ice twice a day'', '''', ''Recommendations:'']
       @ [''Stay active'']). CHR ''\<newline>'' \<notin> set l"
    by simp
  have pre: "\<forall>l\<in>set [''Summary of the case''].
      \<not> isTargetSection diagnosisNames (toLowerCase l)"
    by code_simp
  have l1: "\<not> isTargetSection diagnosisNames (toLowerCase (''  '' @ ''rest for two weeks''))"
    by code_simp
  have l2: "\<not> isTargetSection diagnosisNames (toLowerCase (''  '' @ ''ice twice a day''))"
    by code_simp
  have bl: "trim '''' = []" by code_simp
  have nh: "isPotentialHeading (toLowerCase ''Recommendations:'')"
    "\<not> isTargetSection diagnosisNames (toLowerCase ''Recommendations:'')"
    by code_simp+
  have e: "''ice twice a day'' \<noteq> [] \<and> \<not> isSpace (last ''ice twice a day'')"
    by code_simp
  from extractSection_diagnosis[OF nl pre l1 l2 bl nh] e
  have "extractSection
          (join ''\<newline>''
             ([''Summary of the case''] @
              [''Diagnosis: '' @ ''Mild strain'', ''  '' @ ''rest for two weeks'',
               ''  '' @ ''ice twice a day'', [], ''Recommendations:''] @
              [''Stay active'']))
          diagnosisNames
        = ''Diagnosis: '' @ ''Mild strain'' @ ''\<newline>'' @ ''  '' @ ''rest for two weeks'' @
          ''\<newline>'' @ ''  '' @ ''ice twice a day''"
    by blast
  then show ?thesis by simp
qed

text \<open>
  The claim as stated fails when an indented line is itself a heading for the
  diagnosis names (it mentions \<open>diagnosis\<close> and has a colon): the capture starts
  again at that line, and the \<open>Diagnosis:\<close> line is lost.
\<close>

theorem extractSection_diagnosis_counterexample:
  "extractSection
     ''Diagnosis: Mild strain\<newline>  Primary diagnosis: lumbar strain\<newline>  Severity: mild\<newline>\<newline>Recommendations:\<newline>Rest''
     [''diagnosis'', ''assessment'']
   = ''Primary diagnosis: lumbar strain\<newline>  Severity: mild''
   \<and> extractSection
     ''Diagnosis: Mild strain\<newline>  Primary diagnosis: lumbar strain\<newline>  Severity: mild\<newline>\<newline>Recommendations:\<newline>Rest''
     [''diagnosis'', ''assessment'']
   \<noteq> ''Diagnosis: Mild strain\<newline>  Primary diagnosis: lumbar strain\<newline>  Severity: mild''"
  by code_simp


section \<open>Submission: validation, failure, per-image results\<close>

text \<open>
  Claim C1. When no file is selected or the patient name is the empty string,
  \<open>analyzeContent\<close> sends no request to the completion service, sets the error
  message and leaves the stored result as it was.
\<close>

theorem analyzeContent_validation:
  assumes "files s = [] \<or> patientName s = []"
  shows "snd (analyzeContent sv s) = []
       \<and> error (fst (analyzeContent sv s)) = ''Please upload files and enter patient name''
       \<and> result (fst (analyzeContent sv s)) = result s"
  using assms by (auto simp: analyzeContent_def)

theorem analyzeContent_validation_witness:
  "files (idleAnalyzer\<lparr>patientName := ''Jane Doe''\<rparr>) = []
   \<and> snd (analyzeContent jsonServices (idleAnalyzer\<lparr>patientName := ''Jane Doe''\<rparr>)) = []
   \<and> result (fst (analyzeContent jsonServices (idleAnalyzer\<lparr>patientName := ''Jane Doe''\<rparr>)))
       = None
   \<and> patientName (idleAnalyzer\<lparr>files := [scanFile]\<rparr>) = []
   \<and> snd (analyzeContent jsonServices (idleAnalyzer\<lparr>files := [scanFile]\<rparr>)) = []
   \<and> error (fst (analyzeContent jsonServices (idleAnalyzer\<lparr>files := [scanFile]\<rparr>)))
       = ''Please upload files and enter patient name''"
proof -
  have a: "files (idleAnalyzer\<lparr>patientName := ''Jane Doe''\<rparr>) = []"
    by (simp add: idleAnalyzer_def)
  have b: "patientName (idleAnalyzer\<lparr>files := [scanFile]\<rparr>) = []"
    by (simp add: idleAnalyzer_def)
  have r: "result (idleAnalyzer\<lparr>patientName := ''Jane Doe''\<rparr>) = None"
    by (simp add: idleAnalyzer_def)
  from a have a': "files (idleAnalyzer\<lparr>patientName := ''Jane Doe''\<rparr>) = []
      \<or> patientName (idleAnalyzer\<lparr>patientName := ''Jane Doe''\<rparr>) = []" by (rule disjI1)
  from b have b': "files (idleAnalyzer\<lparr>files := [scanFile]\<rparr>) = []
      \<or> patientName (idleAnalyzer\<lparr>files := [scanFile]\<rparr>) = []" by (rule disjI2)
  show ?thesis
    using analyzeContent_validation[OF a', of jsonServices]
      analyzeContent_validation[OF b', of jsonServices] a b r
    by simp
qed

lemma refusedRequest_Nil: "\<not> refusedRequest sv []"
  by (simp add: refusedRequest_def)

lemma refusedRequest_snoc:
  "refusedRequest sv (sent @ [req]) =
     (refusedRequest sv sent \<or> isl (generateContent sv sent req))"
  by (auto simp: refusedRequest_def list_ex_iff nth_append less_Suc_eq)

lemma unreadableImage_started:
  "unreadableImage sv (s\<lparr>isAnalyzing := a, error := m\<rparr>) = unreadableImage sv s"
  by (simp add: unreadableImage_def)

lemma analyzeImage_Inr:
  assumes "analyzeImage sv n i f r = Inr r'"
  shows "readAsDataURL sv f \<noteq> None \<and> refusedRequest sv (calls r') = refusedRequest sv (calls r)"
  using assms
  by (auto simp: analyzeImage_def fileToGenerativePart_def Let_def refusedRequest_snoc
      split: option.splits sum.splits)

lemma analyzeImage_Inl:
  assumes "analyzeImage sv n i f r = Inl (e, r')"
  shows "readAsDataURL sv f = None \<or> refusedRequest sv (calls r')"
  using assms
  by (auto simp: analyzeImage_def fileToGenerativePart_def Let_def refusedRequest_snoc
      split: option.splits sum.splits)

lemma imageLoop_Inr:
  "imageLoop sv n i fs r = Inr r' \<Longrightarrow>
   (\<forall>f\<in>set fs. readAsDataURL sv f \<noteq> None)
   \<and> refusedRequest sv (calls r') = refusedRequest sv (calls r)"
proof (induction fs arbitrary: i r)
  case Nil
  then show ?case by simp
next
  case (Cons f fs)
  from Cons.prems obtain r1 where a: "analyzeImage sv n i f r = Inr r1"
    and b: "imageLoop sv n (i + 1) fs r1 = Inr r'"
    by (auto split: sum.splits)
  from analyzeImage_Inr[OF a] Cons.IH[OF b] show ?case by simp
qed

lemma imageLoop_Inl:
  "imageLoop sv n i fs r = Inl (e, r') \<Longrightarrow> \<not> refusedRequest sv (calls r) \<Longrightarrow>
   (\<exists>f\<in>set fs. readAsDataURL sv f = None) \<or> refusedRequest sv (calls r')"
proof (induction fs arbitrary: i r)
  case Nil
  then show ?case by simp
next
  case (Cons f fs)
  show ?case
  proof (cases "analyzeImage sv n i f r")
    case (Inl x)
    with Cons.prems(1) have "analyzeImage sv n i f r = Inl (e, r')" by simp
    from analyzeImage_Inl[OF this] show ?thesis by auto
  next
    case (Inr r1)
    with Cons.prems(1) have b: "imageLoop sv n (i + 1) fs r1 = Inl (e, r')" by simp
    from analyzeImage_Inr[OF Inr] Cons.prems(2) have "\<not> refusedRequest sv (calls r1)" by simp
    from Cons.IH[OF b this] show ?thesis by auto
  qed
qed

lemma tryBody_Inr:
  assumes "tryBody sv s = Inr (a, r)"
  shows "\<not> unreadableImage sv s \<and> \<not> refusedRequest sv (calls r)"
proof -
  define r0 where "r0 = \<lparr>parts =
       (if 0 < length (filter (\<lambda>f. fileType f = ''application/pdf'') (files s))
        then [TextPart (reportPrompt (patientName s))] @
               [TextPart (''Text extracted from PDF documents:\<newline>'' @
                  join ''\<newline>\<newline>''
                    (map extractTextFromPDF
                       (filter (\<lambda>f. fileType f = ''application/pdf'') (files s))))]
        else [TextPart (reportPrompt (patientName s))]),
      imageAnalysis = Map.empty, progress = imageAnalysisProgress s, calls = []\<rparr>"
  define imgs where "imgs = filter (\<lambda>f. startsWith (fileType f) ''image/'') (files s)"
  from assms obtain r1 where l: "imageLoop sv (length imgs) 0 imgs r0 = Inr r1"
    and g: "\<not> isl (generateContent sv (calls r1) (parts r1))"
    and r: "calls r = calls r1 @ [parts r1]"
    by (cases imgs)
       (auto simp: tryBody_def Let_def r0_def imgs_def split: sum.splits if_splits)
  have "\<not> refusedRequest sv (calls r0)" by (simp add: r0_def refusedRequest_Nil)
  with imageLoop_Inr[OF l] have rd: "\<forall>f\<in>set imgs. readAsDataURL sv f \<noteq> None"
    and nr: "\<not> refusedRequest sv (calls r1)" by simp_all
  from rd have "\<not> unreadableImage sv s"
    by (auto simp: unreadableImage_def imgs_def list_ex_iff)
  moreover from nr g r have "\<not> refusedRequest sv (calls r)"
    by (simp add: refusedRequest_snoc)
  ultimately show ?thesis by simp
qed

lemma tryBody_Inl:
  assumes "tryBody sv s = Inl (e, r)"
  shows "unreadableImage sv s \<or> refusedRequest sv (calls r)"
proof -
  define r0 where "r0 = \<lparr>parts =
       (if 0 < length (filter (\<lambda>f. fileType f = ''application/pdf'') (files s))
        then [TextPart (reportPrompt (patientName s))] @
               [TextPart (''Text extracted from PDF documents:\<newline>'' @
                  join ''\<newline>\<newline>''
                    (map extractTextFromPDF
                       (filter (\<lambda>f. fileType f = ''application/pdf'') (files s))))]
        else [TextPart (reportPrompt (patientName s))]),
      imageAnalysis = Map.empty, progress = imageAnalysisProgress s, calls = []\<rparr>"
  define imgs where "imgs = filter (\<lambda>f. startsWith (fileType f) ''image/'') (files s)"
  have n0: "\<not> refusedRequest sv (calls r0)" by (simp add: r0_def refusedRequest_Nil)
  show ?thesis
  proof (cases "imageLoop sv (length imgs) 0 imgs r0")
    case (Inl x)
    with assms have "imageLoop sv (length imgs) 0 imgs r0 = Inl (e, r)"
      by (cases imgs) (auto simp: tryBody_def Let_def r0_def imgs_def split: if_splits)
    from imageLoop_Inl[OF this n0] show ?thesis
      by (auto simp: unreadableImage_def imgs_def list_ex_iff)
  next
    case (Inr r1)
    with assms have g: "isl (generateContent sv (calls r1) (parts r1))"
      and r: "calls r = calls r1 @ [parts r1]"
      by (cases imgs; auto simp: tryBody_def Let_def r0_def imgs_def split: sum.splits if_splits)+
    then show ?thesis by (simp add: refusedRequest_snoc)
  qed
qed

text \<open>
  Claim C2, as the code has it. When the pipeline is started, the submission ends in
  the error state exactly when a collaborator threw inside the \<open>try\<close> block: a
  selected image could not be read, or a request to the completion service (for an
  image, or the aggregate one) was answered by an exception. Then the error state is
  the one generic message, no result is stored, the stored result is the one from
  before, and the component is no longer analyzing. Otherwise (so also when
  \<open>JSON.parse\<close> throws on an image reply) no error is set and a result is stored.
\<close>

theorem analyzeContent_failure:
  assumes "files s \<noteq> []" and "patientName s \<noteq> []"
  shows "(unreadableImage sv s \<or> refusedRequest sv (snd (analyzeContent sv s)) \<longrightarrow>
            error (fst (analyzeContent sv s)) = ''Error analyzing documents. Please try again.''
          \<and> result (fst (analyzeContent sv s)) = result s
          \<and> \<not> isAnalyzing (fst (analyzeContent sv s)))
       \<and> (\<not> (unreadableImage sv s \<or> refusedRequest sv (snd (analyzeContent sv s))) \<longrightarrow>
            error (fst (analyzeContent sv s)) = []
          \<and> result (fst (analyzeContent sv s)) \<noteq> None
          \<and> \<not> isAnalyzing (fst (analyzeContent sv s)))"
proof (cases "tryBody sv (s\<lparr>isAnalyzing := True, error := []\<rparr>)")
  case (Inl x)
  obtain e r where x: "x = (e, r)" by (cases x)
  from tryBody_Inl[of sv "s\<lparr>isAnalyzing := True, error := []\<rparr>" e r] Inl x
  have "unreadableImage sv s \<or> refusedRequest sv (calls r)"
    by (simp add: unreadableImage_started)
  with assms Inl x show ?thesis by (simp add: analyzeContent_def)
next
  case (Inr y)
  obtain a r where y: "y = (a, r)" by (cases y)
  from tryBody_Inr[of sv "s\<lparr>isAnalyzing := True, error := []\<rparr>" a r] Inr y
  have "\<not> unreadableImage sv s \<and> \<not> refusedRequest sv (calls r)"
    by (simp add: unreadableImage_started)
  with assms Inr y show ?thesis by (simp add: analyzeContent_def)
qed

theorem analyzeContent_failure_witness:
  "files janeDoe \<noteq> [] \<and> patientName janeDoe \<noteq> []
   \<and> unreadableImage lockedServices janeDoe
   \<and> error (fst (analyzeContent lockedServices janeDoe))
       = ''Error analyzing documents. Please try again.''
   \<and> result (fst (analyzeContent lockedServices janeDoe)) = None
   \<and> refusedRequest failingServices (snd (analyzeContent failingServices janeDoe))
   \<and> error (fst (analyzeContent failingServices janeDoe))
       = ''Error analyzing documents. Please try again.''
   \<and> \<not> unreadableImage jsonServices janeDoe
   \<and> \<not> refusedRequest jsonServices (snd (analyzeContent jsonServices janeDoe))
   \<and> error (fst (analyzeContent jsonServices janeDoe)) = []
   \<and> result (fst (analyzeContent jsonServices janeDoe)) \<noteq> None"
proof -
  have f: "files janeDoe \<noteq> []" and p: "patientName janeDoe \<noteq> []"
    and r: "result janeDoe = None"
    by (simp_all add: janeDoe_def idleAnalyzer_def)
  have u: "unreadableImage lockedServices janeDoe"
    by (simp add: unreadableImage_def janeDoe_def idleAnalyzer_def scanFile_def
        lockedServices_def startsWith_def)
  have nu: "\<not> unreadableImage jsonServices janeDoe"
    by (simp add: unreadableImage_def janeDoe_def idleAnalyzer_def scanFile_def
        jsonServices_def startsWith_def)
  have lg: "snd (analyzeContent failingServices janeDoe)
      = [[TextPart imagePrompt, InlineData (Some ''UE5H'') ''image/png'']]"
    by (simp add: analyzeContent_def tryBody_def janeDoe_def idleAnalyzer_def scanFile_def
        failingServices_def startsWith_def analyzeImage_def fileToGenerativePart_def Let_def
        nthOpt_def)
  have rf: "refusedRequest failingServices (snd (analyzeContent failingServices janeDoe))"
    unfolding lg by (simp add: refusedRequest_def failingServices_def)
  have nr: "\<not> refusedRequest jsonServices sent" for sent
    by (simp add: refusedRequest_def jsonServices_def list_ex_iff)
  from analyzeContent_failure[OF f p, of lockedServices]
    analyzeContent_failure[OF f p, of failingServices]
    analyzeContent_failure[OF f p, of jsonServices] u rf nu nr r f p
  show ?thesis by simp
qed

text \<open>
  The claim as stated fails for the exception of \<open>JSON.parse\<close>: it is raised between
  intake and the aggregate call, and it is caught by the handler around the parse. Here
  the reply to the one image is plain words, \<open>JSON.parse\<close> throws on it, and the
  submission ends with no error message and with a new stored result.
\<close>

theorem analyzeContent_failure_counterexample:
  "generateContent plainServices [] [TextPart imagePrompt, InlineData (Some ''UE5H'') ''image/png'']
     = Inr ''The scan looks normal.''
   \<and> JSON_parse plainServices ''The scan looks normal.'' = Inl (Exn ''SyntaxError'')
   \<and> error (fst (analyzeContent plainServices janeDoe)) = []
   \<and> result (fst (analyzeContent plainServices janeDoe)) \<noteq> result janeDoe"
  by (simp add: analyzeContent_def tryBody_def janeDoe_def idleAnalyzer_def scanFile_def
      plainServices_def startsWith_def analyzeImage_def fileToGenerativePart_def Let_def)

text \<open>
  Claim C3. When the reply for an image does not parse as JSON, the analyzer stores
  under the file's name the record with the raw reply as \<open>description\<close>, empty
  \<open>abnormalities\<close> and \<open>measurements\<close>, \<open>confidence\<close> 0 and the fixed
  \<open>recommendations\<close> text, and the loop goes on with the next file: when the
  file is the last one the loop ends normally in that state, and when a file \<open>g\<close>
  follows, \<open>g\<close> is analyzed next, from that state and with the next index.
\<close>

theorem analyzeImage_parse_failure:
  assumes "fileToGenerativePart sv f = Inr p"
    and "generateContent sv (calls r) [TextPart imagePrompt, p] = Inr reply"
    and "JSON_parse sv reply = Inl e"
  shows "\<exists>r'. analyzeImage sv n i f r = Inr r'
           \<and> imageAnalysis r' =
               (imageAnalysis r)
                 (fileName f \<mapsto>
                    JObject [(''description'', JString reply),
                             (''abnormalities'', JArray []),
                             (''measurements'', JArray []),
                             (''confidence'', JNumber 0),
                             (''recommendations'', JString ''Unable to parse detailed analysis'')])
           \<and> imageLoop sv n i [f] r = Inr r'
           \<and> imageLoop sv n i (f # g # gs) r =
               (case analyzeImage sv n (i + 1) g r' of
                  Inl x \<Rightarrow> Inl x
                | Inr r'' \<Rightarrow> imageLoop sv n (i + 2) gs r'')
           \<and> imageLoop sv n i (f # fs) r = imageLoop sv n (i + 1) fs r'"
proof -
  from assms obtain r' where a: "analyzeImage sv n i f r = Inr r'"
    and m: "imageAnalysis r' =
               (imageAnalysis r)
                 (fileName f \<mapsto>
                    JObject [(''description'', JString reply),
                             (''abnormalities'', JArray []),
                             (''measurements'', JArray []),
                             (''confidence'', JNumber 0),
                             (''recommendations'', JString ''Unable to parse detailed analysis'')])"
    by (simp add: analyzeImage_def Let_def)
  have "imageLoop sv n i [f] r = Inr r'" by (simp add: a)
  moreover have "imageLoop sv n i (f # g # gs) r =
               (case analyzeImage sv n (i + 1) g r' of
                  Inl x \<Rightarrow> Inl x
                | Inr r'' \<Rightarrow> imageLoop sv n (i + 2) gs r'')"
    by (simp add: a split: sum.split)
  moreover have "imageLoop sv n i (f # fs) r = imageLoop sv n (i + 1) fs r'" by (simp add: a)
  ultimately show ?thesis using a m by blast
qed

text \<open>
  Claim C4. When the reply for an image parses as JSON, the value stored under the
  file's name is the parsed value itself, whatever its fields; no other entry changes.
\<close>

theorem analyzeImage_parse_success:
  assumes "fileToGenerativePart sv f = Inr p"
    and "generateContent sv (calls r) [TextPart imagePrompt, p] = Inr reply"
    and "JSON_parse sv reply = Inr parsed"
  shows "\<exists>r'. analyzeImage sv n i f r = Inr r'
           \<and> imageAnalysis r' = (imageAnalysis r)(fileName f \<mapsto> parsed)
           \<and> imageLoop sv n i (f # fs) r = imageLoop sv n (i + 1) fs r'"
  using assms by (simp add: analyzeImage_def Let_def)

theorem analyzeImage_parse_failure_witness:
  "fileToGenerativePart mixedServices scanFile = Inr (InlineData (Some ''UE5H'') ''image/png'')
   \<and> generateContent mixedServices (calls emptyRun)
         [TextPart imagePrompt, InlineData (Some ''UE5H'') ''image/png'']
       = Inr ''The scan looks normal.''
   \<and> JSON_parse mixedServices ''The scan looks normal.'' = Inl (Exn ''SyntaxError'')
   \<and> (case imageLoop mixedServices 2 0 [scanFile, xrayFile] emptyRun of
         Inr r'' \<Rightarrow> (imageAnalysis r'' ''scan.png'', imageAnalysis r'' ''xray.jpg'')
       | Inl x \<Rightarrow> (None, None))
       = (Some (JObject [(''description'', JString ''The scan looks normal.''),
                         (''abnormalities'', JArray []),
                         (''measurements'', JArray []),
                         (''confidence'', JNumber 0),
                         (''recommendations'', JString ''Unable to parse detailed analysis'')]),
          Some normalFindings)
   \<and> (case imageLoop mixedServices 1 0 [scanFile] emptyRun of
         Inr r' \<Rightarrow> imageAnalysis r' ''scan.png'' | Inl x \<Rightarrow> None)
       = Some (JObject [(''description'', JString ''The scan looks normal.''),
                        (''abnormalities'', JArray []),
                        (''measurements'', JArray []),
                        (''confidence'', JNumber 0),
                        (''recommendations'', JString ''Unable to parse detailed analysis'')])"
proof -
  have a: "fileToGenerativePart mixedServices scanFile
      = Inr (InlineData (Some ''UE5H'') ''image/png'')"
    by (simp add: fileToGenerativePart_def mixedServices_def scanFile_def nthOpt_def)
  have b: "generateContent mixedServices (calls emptyRun)
         [TextPart imagePrompt, InlineData (Some ''UE5H'') ''image/png'']
       = Inr ''The scan looks normal.''"
    by (simp add: mixedServices_def emptyRun_def)
  have c: "JSON_parse mixedServices ''The scan looks normal.'' = Inl (Exn ''SyntaxError'')"
    by (simp add: mixedServices_def)
  from analyzeImage_parse_failure[OF a b c, of 2 0 xrayFile "[]" "[]"]
  obtain r' where s1: "analyzeImage mixedServices 2 0 scanFile emptyRun = Inr r'"
    and m1: "imageAnalysis r' =
           (imageAnalysis emptyRun)
             (fileName scanFile \<mapsto>
                JObject [(''description'', JString ''The scan looks normal.''),
                         (''abnormalities'', JArray []),
                         (''measurements'', JArray []),
                         (''confidence'', JNumber 0),
                         (''recommendations'', JString ''Unable to parse detailed analysis'')])"
    and l2: "imageLoop mixedServices 2 0 [scanFile, xrayFile] emptyRun =
               (case analyzeImage mixedServices 2 (0 + 1) xrayFile r' of
                  Inl x \<Rightarrow> Inl x
                | Inr r'' \<Rightarrow> imageLoop mixedServices 2 (0 + 2) [] r'')"
    by blast
  have c1: "calls r' \<noteq> []"
    using s1 by (auto simp: analyzeImage_def Let_def split: sum.splits)
  have x: "case analyzeImage mixedServices 2 (0 + 1) xrayFile r' of
             Inl x \<Rightarrow> False
           | Inr r'' \<Rightarrow> imageAnalysis r'' = (imageAnalysis r')(''xray.jpg'' \<mapsto> normalFindings)"
    using c1
    by (simp add: analyzeImage_def fileToGenerativePart_def mixedServices_def xrayFile_def
        Let_def)
  have two: "(case imageLoop mixedServices 2 0 [scanFile, xrayFile] emptyRun of
         Inr r'' \<Rightarrow> (imageAnalysis r'' ''scan.png'', imageAnalysis r'' ''xray.jpg'')
       | Inl x \<Rightarrow> (None, None))
       = (Some (JObject [(''description'', JString ''The scan looks normal.''),
                         (''abnormalities'', JArray []),
                         (''measurements'', JArray []),
                         (''confidence'', JNumber 0),
                         (''recommendations'', JString ''Unable to parse detailed analysis'')]),
          Some normalFindings)"
    using x unfolding l2
    by (cases "analyzeImage mixedServices 2 (0 + 1) xrayFile r'")
       (simp_all add: m1 scanFile_def)
  from analyzeImage_parse_failure[OF a b c, of 1 0 xrayFile "[]" "[]"]
  obtain q where "imageLoop mixedServices 1 0 [scanFile] emptyRun = Inr q"
    and "imageAnalysis q =
           (imageAnalysis emptyRun)
             (fileName scanFile \<mapsto>
                JObject [(''description'', JString ''The scan looks normal.''),
                         (''abnormalities'', JArray []),
                         (''measurements'', JArray []),
                         (''confidence'', JNumber 0),
                         (''recommendations'', JString ''Unable to parse detailed analysis'')])"
    by blast
  then have one: "(case imageLoop mixedServices 1 0 [scanFile] emptyRun of
         Inr r' \<Rightarrow> imageAnalysis r' ''scan.png'' | Inl x \<Rightarrow> None)
       = Some (JObject [(''description'', JString ''The scan looks normal.''),
                        (''abnormalities'', JArray []),
                        (''measurements'', JArray []),
                        (''confidence'', JNumber 0),
                        (''recommendations'', JString ''Unable to parse detailed analysis'')])"
    by (simp add: scanFile_def)
  from a b c two one show ?thesis by blast
qed

theorem analyzeImage_parse_success_witness:
  "fileToGenerativePart jsonServices scanFile = Inr (InlineData (Some ''UE5H'') ''image/png'')
   \<and> generateContent jsonServices (calls emptyRun)
         [TextPart imagePrompt, InlineData (Some ''UE5H'') ''image/png'']
       = Inr ''{...}''
   \<and> JSON_parse jsonServices ''{...}'' = Inr normalFindings
   \<and> (case analyzeImage jsonServices 1 0 scanFile emptyRun of
         Inr r' \<Rightarrow> imageAnalysis r' ''scan.png'' | Inl x \<Rightarrow> None)
       = Some normalFindings"
proof -
  have a: "fileToGenerativePart jsonServices scanFile
      = Inr (InlineData (Some ''UE5H'') ''image/png'')"
    by (simp add: fileToGenerativePart_def jsonServices_def scanFile_def nthOpt_def)
  have b: "generateContent jsonServices (calls emptyRun)
         [TextPart imagePrompt, InlineData (Some ''UE5H'') ''image/png'']
       = Inr ''{...}''"
    by (simp add: jsonServices_def)
  have c: "JSON_parse jsonServices ''{...}'' = Inr normalFindings"
    by (simp add: jsonServices_def)
  from analyzeImage_parse_success[OF a b c, of 1 0 "[]"]
  obtain r' where "analyzeImage jsonServices 1 0 scanFile emptyRun = Inr r'"
    and "imageAnalysis r' = (imageAnalysis emptyRun)(fileName scanFile \<mapsto> normalFindings)"
    by blast
  with a b c show ?thesis by (simp add: scanFile_def)
qed


section \<open>Aggregate reply: placeholders\<close>

lemma extractSection_no_heading:
  assumes "\<forall>l\<in>set (splitOn CHR ''\<newline>'' t). \<not> isTargetSection ns (toLowerCase l)"
  shows "extractSection t ns = ''No information available''"
proof -
  from assms have "extractLoop ns (splitOn CHR ''\<newline>'' t) 0 [] False = []"
    by (rule skip_all)
  then show ?thesis by (simp add: extractSection_def trim_def)
qed

text \<open>
  Claim C6, as the code has it. When no line of the aggregate reply is a heading for
  the section names of a field, that field of the result is one of two fixed
  placeholders: the field's own default when the reply does not contain the field's
  gate words at all, and the placeholder of \<open>extractSection\<close> when it does.
\<close>

theorem buildResult_placeholders:
  "((\<forall>l\<in>set (splitOn CHR ''\<newline>'' t).
        \<not> isTargetSection [''document findings'', ''text findings''] (toLowerCase l)) \<longrightarrow>
      textFindings (buildResult m t) =
        (if includesStr (toLowerCase t) ''document findings''
            \<or> includesStr (toLowerCase t) ''text findings''
         then ''No information available'' else ''No document findings available''))
   \<and> ((\<forall>l\<in>set (splitOn CHR ''\<newline>'' t).
        \<not> isTargetSection [''diagnosis'', ''assessment''] (toLowerCase l)) \<longrightarrow>
      diagnosis (buildResult m t) =
        (if includesStr (toLowerCase t) ''diagnosis''
         then ''No information available'' else ''No diagnosis available''))
   \<and> ((\<forall>l\<in>set (splitOn CHR ''\<newline>'' t).
        \<not> isTargetSection [''recommendation'', ''treatment'', ''plan''] (toLowerCase l)) \<longrightarrow>
      recommendations (buildResult m t) =
        (if includesStr (toLowerCase t) ''recommendation''
            \<or> includesStr (toLowerCase t) ''treatment''
         then ''No information available'' else ''No recommendations available''))"
  by (simp add: buildResult_def extractSection_no_heading)

theorem buildResult_placeholders_witness:
  "splitOn CHR ''\<newline>'' ''The diagnosis is open\<newline>More tests needed''
     = [''The diagnosis is open'', ''More tests needed'']
   \<and> \<not> isTargetSection [''diagnosis'', ''assessment''] (toLowerCase ''The diagnosis is open'')
   \<and> \<not> isTargetSection [''diagnosis'', ''assessment''] (toLowerCase ''More tests needed'')
   \<and> diagnosis (buildResult Map.empty ''The diagnosis is open\<newline>More tests needed'')
       = ''No information available''
   \<and> recommendations (buildResult Map.empty ''The diagnosis is open\<newline>More tests needed'')
       = ''No recommendations available''
   \<and> textFindings (buildResult Map.empty ''The diagnosis is open\<newline>More tests needed'')
       = ''No document findings available''"
proof -
  define t where "t = ''The diagnosis is open\<newline>More tests needed''"
  have sp: "splitOn CHR ''\<newline>'' t = [''The diagnosis is open'', ''More tests needed'']"
    unfolding t_def by code_simp
  have d1: "\<not> isTargetSection [''diagnosis'', ''assessment''] (toLowerCase ''The diagnosis is open'')"
    and d2: "\<not> isTargetSection [''diagnosis'', ''assessment''] (toLowerCase ''More tests needed'')"
    by code_simp+
  from d1 d2 have d: "\<forall>l\<in>set (splitOn CHR ''\<newline>'' t).
      \<not> isTargetSection [''diagnosis'', ''assessment''] (toLowerCase l)"
    unfolding sp by simp
  have r: "\<forall>l\<in>set (splitOn CHR ''\<newline>'' t).
      \<not> isTargetSection [''recommendation'', ''treatment'', ''plan''] (toLowerCase l)"
    unfolding sp by code_simp
  have f: "\<forall>l\<in>set (splitOn CHR ''\<newline>'' t).
      \<not> isTargetSection [''document findings'', ''text findings''] (toLowerCase l)"
    unfolding sp by code_simp
  have g: "includesStr (toLowerCase t) ''diagnosis''"
    "\<not> includesStr (toLowerCase t) ''recommendation''"
    "\<not> includesStr (toLowerCase t) ''treatment''"
    "\<not> includesStr (toLowerCase t) ''document findings''"
    "\<not> includesStr (toLowerCase t) ''text findings''"
    unfolding t_def by code_simp+
  from buildResult_placeholders[of t Map.empty] d r f g
  have "diagnosis (buildResult Map.empty t) = ''No information available''
      \<and> recommendations (buildResult Map.empty t) = ''No recommendations available''
      \<and> textFindings (buildResult Map.empty t) = ''No document findings available''"
    by simp
  with sp d1 d2 show ?thesis unfolding t_def by blast
qed


text \<open>
  The claim as stated fails: the placeholder is not one fixed string per field. Neither
  of these two replies has a heading line for the diagnosis names; the first mentions
  the word \<open>diagnosis\<close>, the second does not, and the \<open>diagnosis\<close> fields differ.
\<close>

theorem buildResult_placeholders_counterexample:
  "splitOn CHR ''\<newline>'' ''The diagnosis is open'' = [''The diagnosis is open'']
   \<and> \<not> isTargetSection [''diagnosis'', ''assessment''] (toLowerCase ''The diagnosis is open'')
   \<and> splitOn CHR ''\<newline>'' ''More tests needed'' = [''More tests needed'']
   \<and> \<not> isTargetSection [''diagnosis'', ''assessment''] (toLowerCase ''More tests needed'')
   \<and> diagnosis (buildResult Map.empty ''The diagnosis is open'') = ''No information available''
   \<and> diagnosis (buildResult Map.empty ''More tests needed'') = ''No diagnosis available''
   \<and> diagnosis (buildResult Map.empty ''The diagnosis is open'')
       \<noteq> diagnosis (buildResult Map.empty ''More tests needed'')"
proof -
  have s1: "splitOn CHR ''\<newline>'' ''The diagnosis is open'' = [''The diagnosis is open'']"
    and s2: "splitOn CHR ''\<newline>'' ''More tests needed'' = [''More tests needed'']"
    by code_simp+
  have t1: "\<not> isTargetSection [''diagnosis'', ''assessment''] (toLowerCase ''The diagnosis is open'')"
    and t2: "\<not> isTargetSection [''diagnosis'', ''assessment''] (toLowerCase ''More tests needed'')"
    by code_simp+
  have g1: "includesStr (toLowerCase ''The diagnosis is open'') ''diagnosis''"
    and g2: "\<not> includesStr (toLowerCase ''More tests needed'') ''diagnosis''"
    by code_simp+
  have e1: "extractSection ''The diagnosis is open'' [''diagnosis'', ''assessment'']
      = ''No information available''"
    by code_simp
  have d1: "diagnosis (buildResult Map.empty ''The diagnosis is open'')
      = ''No information available''"
    using g1 e1 by (simp add: buildResult_def)
  have d2: "diagnosis (buildResult Map.empty ''More tests needed'') = ''No diagnosis available''"
    using g2 by (simp add: buildResult_def)
  have "diagnosis (buildResult Map.empty ''The diagnosis is open'')
       \<noteq> diagnosis (buildResult Map.empty ''More tests needed'')"
    unfolding d1 d2 by simp
  with s1 s2 t1 t2 d1 d2 show ?thesis by blast
qed


section \<open>Renderer: page breaks\<close>

lemma breakTitles_no_break: "AddPage \<notin> set xs \<Longrightarrow> breakTitles (xs @ ys) = breakTitles ys"
  by (induction xs) auto

lemma breakTitles_nil: "AddPage \<notin> set xs \<Longrightarrow> breakTitles xs = []"
  using breakTitles_no_break[of xs "[]"] by simp

lemma pageBreaks_breakTitles: "pageBreaks cs = length (breakTitles cs)"
  by (induction cs) (auto simp: pageBreaks_def)

lemma firstText_sectionTitle: "firstText (sectionTitle title y @ cs) = Some title"
  by (simp add: sectionTitle_def)

lemma sectionTitle_no_break: "AddPage \<notin> set (sectionTitle title y)"
  by (simp add: sectionTitle_def)

lemma drawHeader_no_break: "AddPage \<notin> set (fst (drawHeader lib now name))"
  by (simp add: drawHeader_def)

lemma fst_drawBlock:
  "fst (drawBlock lib title content d) =
     fst d @ sectionTitle title (snd d)
       @ [DrawText (Lines (splitTextToSize lib content (pageWidth lib - 40))) 20 (snd d + 10)]"
  by (simp add: drawBlock_def Let_def)

lemma snd_drawBlock:
  "snd (drawBlock lib title content d) =
     snd d + (10 + int (length (splitTextToSize lib content (pageWidth lib - 40))) * 7)"
  by (simp add: drawBlock_def Let_def)

lemma beforeDiagnosis_no_break: "AddPage \<notin> set (fst (beforeDiagnosis lib now name res))"
  by (simp add: beforeDiagnosis_def fst_drawBlock sectionTitle_no_break drawHeader_no_break)

lemma snd_beforeDiagnosis:
  "snd (beforeDiagnosis lib now name res) =
     80 + (10 + int (length (splitTextToSize lib (Str (textFindings res)) (pageWidth lib - 40))) * 7)
        + (10 + int (length (splitTextToSize lib (Obj (imageFindings res)) (pageWidth lib - 40))) * 7)"
  by (simp add: beforeDiagnosis_def snd_drawBlock drawHeader_def)

text \<open>
  Claim C7. With a stored result, the renderer starts a new page before the
  \<open>Diagnosis\<close> title exactly when the cursor is above 230 there, and before the
  \<open>Recommendations\<close> title exactly when the cursor is above 230 there; the
  rendering has no other page break. The cursor before \<open>Diagnosis\<close> is 80 plus, for
  each of the two blocks above, 10 and 7 per wrapped line.
\<close>

theorem generatePDF_page_breaks:
  assumes "result s = Some res"
  shows "breakTitles (generatePDF lib now s) =
           (if 230 < snd (beforeDiagnosis lib now (patientName s) res)
            then [Some ''Diagnosis''] else [])
           @ (if 230 < snd (beforeRecommendations lib now (patientName s) res)
              then [Some ''Recommendations''] else [])
       \<and> pageBreaks (generatePDF lib now s) =
           (if 230 < snd (beforeDiagnosis lib now (patientName s) res) then 1 else 0)
           + (if 230 < snd (beforeRecommendations lib now (patientName s) res) then 1 else 0)
       \<and> snd (beforeDiagnosis lib now (patientName s) res) =
           80 + (10 + int (length (splitTextToSize lib (Str (textFindings res))
                                     (pageWidth lib - 40))) * 7)
              + (10 + int (length (splitTextToSize lib (Obj (imageFindings res))
                                     (pageWidth lib - 40))) * 7)"
proof -
  obtain A y where bd: "beforeDiagnosis lib now (patientName s) res = (A, y)"
    by (cases "beforeDiagnosis lib now (patientName s) res")
  have nb: "AddPage \<notin> set A"
    using beforeDiagnosis_no_break[of lib now "patientName s" res] bd by simp
  define y' where "y' = snd (beforeRecommendations lib now (patientName s) res)"
  have titles: "breakTitles (generatePDF lib now s) =
      (if 230 < y then [Some ''Diagnosis''] else [])
      @ (if 230 < y' then [Some ''Recommendations''] else [])"
    using nb
    by (simp add: y'_def generatePDF_def assms beforeRecommendations_def bd newPageIfNeeded_def
        fst_drawBlock snd_drawBlock breakTitles_no_break sectionTitle_def)
  have "pageBreaks (generatePDF lib now s) =
      (if 230 < y then 1 else 0) + (if 230 < y' then 1 else 0)"
    unfolding pageBreaks_breakTitles titles by simp
  with titles snd_beforeDiagnosis[of lib now "patientName s" res] show ?thesis
    by (simp add: bd y'_def)
qed

theorem generatePDF_page_breaks_witness:
  "result (janeDoe\<lparr>result := Some longResult\<rparr>) = Some longResult
   \<and> snd (beforeDiagnosis lineLib 0 ''Jane Doe'' longResult) = 324
   \<and> snd (beforeRecommendations lineLib 0 ''Jane Doe'' longResult) = 37
   \<and> breakTitles (generatePDF lineLib 0 (janeDoe\<lparr>result := Some longResult\<rparr>))
       = [Some ''Diagnosis'']
   \<and> pageBreaks (generatePDF lineLib 0 (janeDoe\<lparr>result := Some longResult\<rparr>)) = 1
   \<and> snd (beforeDiagnosis lineLib 0 ''Jane Doe'' shortResult) = 114
   \<and> pageBreaks (generatePDF lineLib 0 (janeDoe\<lparr>result := Some shortResult\<rparr>)) = 0"
proof -
  have n: "patientName (janeDoe\<lparr>result := Some r\<rparr>) = ''Jane Doe''" for r
    by (simp add: janeDoe_def idleAnalyzer_def)
  have sp: "length (splitOn CHR ''\<newline>'' (replicate 30 CHR ''\<newline>'')) = 31"
    by code_simp
  have sp2: "length (splitOn CHR ''\<newline>'' ''No document findings available'') = 1"
    "length (splitOn CHR ''\<newline>'' ''Diagnosis: Mild strain'') = 1"
    by code_simp+
  have y1: "snd (beforeDiagnosis lineLib 0 ''Jane Doe'' longResult) = 324"
    by (simp add: snd_beforeDiagnosis lineLib_def longResult_def shortResult_def sp)
  have y2: "snd (beforeRecommendations lineLib 0 ''Jane Doe'' longResult) = 37"
    by (simp add: beforeRecommendations_def snd_drawBlock newPageIfNeeded_def y1)
       (simp add: lineLib_def longResult_def shortResult_def sp2)
  have z1: "snd (beforeDiagnosis lineLib 0 ''Jane Doe'' shortResult) = 114"
    by (simp add: snd_beforeDiagnosis lineLib_def shortResult_def sp2)
  have z2: "snd (beforeRecommendations lineLib 0 ''Jane Doe'' shortResult) = 131"
    by (simp add: beforeRecommendations_def snd_drawBlock newPageIfNeeded_def z1)
       (simp add: lineLib_def shortResult_def sp2)
  have r1: "result (janeDoe\<lparr>result := Some longResult\<rparr>) = Some longResult" by simp
  have r2: "result (janeDoe\<lparr>result := Some shortResult\<rparr>) = Some shortResult" by simp
  from generatePDF_page_breaks[OF r1, of lineLib 0] generatePDF_page_breaks[OF r2, of lineLib 0]
  show ?thesis by (simp add: n y1 y2 z1 z2)
qed


section \<open>Panel flags: at most one panel is open\<close>

lemma openCount_applyToggle: "openCount (applyToggle s t) \<le> 1"
  by (cases t)
     (simp_all add: openCount_def panelFlags_def toggleProfile_def toggleBlockchain_def
        toggleCommunity_def toggleHandTracker_def toggleAdminControl_def
        toggleReportAnalyzer_def)

lemma openCount_initial: "openCount initialPanels = 0"
  by (simp add: openCount_def panelFlags_def initialPanels_def)

lemma openCount_runToggles:
  "openCount s \<le> 1 \<Longrightarrow> openCount (runToggles s ts) \<le> 1"
proof (induction ts arbitrary: s)
  case Nil
  then show ?case by (simp add: runToggles_def)
next
  case (Cons t ts)
  have "openCount (runToggles (applyToggle s t) ts) \<le> 1"
    by (rule Cons.IH) (rule openCount_applyToggle)
  then show ?case by (simp add: runToggles_def)
qed

lemma applyToggle_own: "flagOf t (applyToggle s t) = (\<not> flagOf t s)"
  by (cases t)
     (simp_all add: toggleProfile_def toggleBlockchain_def toggleCommunity_def
        toggleHandTracker_def toggleAdminControl_def toggleReportAnalyzer_def)

lemma applyToggle_others: "u \<noteq> t \<Longrightarrow> \<not> flagOf u (applyToggle s t)"
  by (cases t; cases u)
     (simp_all add: toggleProfile_def toggleBlockchain_def toggleCommunity_def
        toggleHandTracker_def toggleAdminControl_def toggleReportAnalyzer_def)

text \<open>
  Claim C9. Every toggle negates its own flag and leaves every other panel flag
  \<open>False\<close>; hence, starting from the state in which all six flags are \<open>False\<close>,
  after any sequence of toggles at most one of the six flags is \<open>True\<close>.
\<close>

theorem toggles_exclusive:
  "(\<forall>s t u. u \<noteq> t \<longrightarrow> \<not> flagOf u (applyToggle s t))
   \<and> (\<forall>s t. flagOf t (applyToggle s t) = (\<not> flagOf t s))
   \<and> openCount (runToggles initialPanels ts) \<le> 1"
proof -
  have "openCount (runToggles initialPanels ts) \<le> 1"
    by (rule openCount_runToggles) (simp add: openCount_initial)
  then show ?thesis
    by (simp add: applyToggle_own applyToggle_others)
qed

theorem toggles_exclusive_witness:
  "ToggleCommunity \<noteq> ToggleProfile
   \<and> \<not> flagOf ToggleCommunity (applyToggle (toggleCommunity initialPanels) ToggleProfile)
   \<and> flagOf ToggleProfile (applyToggle (toggleCommunity initialPanels) ToggleProfile)
   \<and> openCount (runToggles initialPanels
        [ToggleCommunity, ToggleProfile, ToggleReportAnalyzer, ToggleReportAnalyzer,
         ToggleBlockchain]) = 1"
proof -
  note h = toggles_exclusive
    [of "[ToggleCommunity, ToggleProfile, ToggleReportAnalyzer, ToggleReportAnalyzer,
          ToggleBlockchain]"]
  have a: "ToggleCommunity \<noteq> ToggleProfile" by simp
  from h a have b:
    "\<not> flagOf ToggleCommunity (applyToggle (toggleCommunity initialPanels) ToggleProfile)"
    by blast
  from h have c:
    "flagOf ToggleProfile (applyToggle (toggleCommunity initialPanels) ToggleProfile)
       = (\<not> flagOf ToggleProfile (toggleCommunity initialPanels))"
    by blast
  have d: "\<not> flagOf ToggleProfile (toggleCommunity initialPanels)"
    by (simp add: toggleCommunity_def initialPanels_def)
  have e: "openCount (runToggles initialPanels
        [ToggleCommunity, ToggleProfile, ToggleReportAnalyzer, ToggleReportAnalyzer,
         ToggleBlockchain]) = 1"
    by (simp add: runToggles_def openCount_def panelFlags_def initialPanels_def
        toggleProfile_def toggleBlockchain_def toggleCommunity_def
        toggleReportAnalyzer_def)
  from a b c d e show ?thesis by simp
qed


section \<open>Rewards: points stay a non-negative multiple of ten\<close>

lemma pointsOk_applyReward: "pointsOk s \<Longrightarrow> pointsOk (applyReward s x)"
proof (cases x)
  case (CompleteTask m)
  assume "pointsOk s"
  then show ?thesis
    using CompleteTask by (simp add: pointsOk_def completeTask_def)
next
  case (ClaimReward u r e)
  assume ok: "pointsOk s"
  show ?thesis
  proof (cases "userPoints s < 100")
    case True
    with ok ClaimReward show ?thesis by (simp add: claimReward_def)
  next
    case False
    from ok have "userPoints s mod 10 = 0" by (simp add: pointsOk_def)
    then have "(userPoints s - 100) mod 10 = 0" by presburger
    with False ClaimReward show ?thesis by (simp add: pointsOk_def claimReward_def)
  qed
qed

lemma pointsOk_runRewards: "pointsOk s \<Longrightarrow> pointsOk (runRewards s ops)"
proof (induction ops arbitrary: s)
  case Nil
  then show ?case by (simp add: runRewards_def)
next
  case (Cons x ops)
  from Cons.prems have "pointsOk (applyReward s x)" by (rule pointsOk_applyReward)
  then have "pointsOk (runRewards (applyReward s x) ops)" by (rule Cons.IH)
  then show ?case by (simp add: runRewards_def)
qed

text \<open>
  Claim C10. \<open>claimReward\<close> returns the state as it is when \<open>userPoints\<close> is below
  100; otherwise it appends exactly one coupon, whose status is \<open>active\<close>, and takes
  exactly 100 points off. \<open>completeTask\<close> adds 10. So, from the initial state
  (0 points), after any sequence of \<open>completeTask\<close> and \<open>claimReward\<close> the points
  are a non-negative multiple of 10.
\<close>

theorem rewards_points:
  "(userPoints s < 100 \<longrightarrow> claimReward u r e s = s)
   \<and> (\<not> userPoints s < 100 \<longrightarrow>
        (\<exists>c. userCoupons (claimReward u r e s) = userCoupons s @ [c] \<and> status c = ''active'')
        \<and> userPoints (claimReward u r e s) = userPoints s - 100
        \<and> moduleProgress (claimReward u r e s) = moduleProgress s)
   \<and> userPoints (completeTask m s) = userPoints s + 10
   \<and> 0 \<le> userPoints (runRewards initialRewards ops)
   \<and> userPoints (runRewards initialRewards ops) mod 10 = 0"
proof -
  have "pointsOk initialRewards" by (simp add: pointsOk_def initialRewards_def)
  then have "pointsOk (runRewards initialRewards ops)" by (rule pointsOk_runRewards)
  then show ?thesis
    by (simp add: pointsOk_def claimReward_def completeTask_def)
qed

theorem rewards_points_witness:
  "userPoints initialRewards < 100
   \<and> claimReward ''USER'' ''K3QZ'' ''2026-12-01'' initialRewards = initialRewards
   \<and> \<not> userPoints (initialRewards\<lparr>userPoints := 130\<rparr>) < 100
   \<and> userPoints (claimReward ''USER'' ''K3QZ'' ''2026-12-01''
         (initialRewards\<lparr>userPoints := 130\<rparr>)) = 30
   \<and> userPoints (runRewards initialRewards
         [CompleteTask Goals, ClaimReward ''USER'' ''K3QZ'' ''2026-12-01'',
          CompleteTask Journaling]) mod 10 = 0"
proof -
  note a = rewards_points
    [of initialRewards "''USER''" "''K3QZ''" "''2026-12-01''" Goals
        "[CompleteTask Goals, ClaimReward ''USER'' ''K3QZ'' ''2026-12-01'',
          CompleteTask Journaling]"]
  note b = rewards_points
    [of "initialRewards\<lparr>userPoints := 130\<rparr>" "''USER''" "''K3QZ''" "''2026-12-01''"
        Goals "[]"]
  have lo: "userPoints initialRewards < 100" by (simp add: initialRewards_def)
  have hi: "\<not> userPoints (initialRewards\<lparr>userPoints := 130\<rparr>) < 100" by simp
  from a lo have "claimReward ''USER'' ''K3QZ'' ''2026-12-01'' initialRewards = initialRewards"
    by blast
  moreover from b hi have
    "userPoints (claimReward ''USER'' ''K3QZ'' ''2026-12-01''
       (initialRewards\<lparr>userPoints := 130\<rparr>)) = 130 - 100"
    by simp
  moreover from a have
    "userPoints (runRewards initialRewards
         [CompleteTask Goals, ClaimReward ''USER'' ''K3QZ'' ''2026-12-01'',
          CompleteTask Journaling]) mod 10 = 0"
    by blast
  ultimately show ?thesis using lo hi by simp
qed

end
